theory Spec2Isabelle
  imports Complex_Main
begin

section \<open>Momentum injectors of WarpX (Source/Initialization/InjectorMomentum.H)\<close>

text \<open>
  The header defines eight momentum samplers, each with \<^verbatim>\<open>getMomentum\<close> (one random
  sample) and \<^verbatim>\<open>getBulkMomentum\<close> (the nominal mean), and the selector
  \<^verbatim>\<open>InjectorMomentum\<close> that holds one of them in a union behind a kind tag.

  Conventions of the embedding:
  \<^item> \<^verbatim>\<open>amrex::Real\<close> is the type \<^typ>\<open>real\<close>: arithmetic is exact, and there is no
    infinity and no NaN. Division by zero and the square root of a negative number have
    the values HOL gives them, so nothing is stated about them on this type; the two
    mean queries that reach them are embedded a second time, on values with infinities
    and NaN.
  \<^item> The random engine is a state of an arbitrary type \<open>'e\<close>. \<^verbatim>\<open>amrex::Random\<close> and
    \<^verbatim>\<open>amrex::RandomNormal\<close> belong to AMReX, not to this header, so they are
    parameters: each takes the engine state and returns the draw with the next state.
  \<^item> \<^verbatim>\<open>amrex::Abort\<close> is the constructor \<open>Abort\<close> of the type \<open>outcome\<close>. It records
    the message and the rest of the function: the run ends at the call, and the rest is
    what the statements after the call compute in an execution context that cannot
    unwind, such as the \<^verbatim>\<open>return {0.0,0.0,0.0}\<close> that follows the abort in the selector.
    A function has aborted when its outcome is an \<open>Abort\<close>.
  \<^item> An unbounded rejection loop is a \<^theory_text>\<open>partial_function\<close> in the option monad:
    \<open>None\<close> is a loop that never accepts.
\<close>

subsection \<open>Values, engine and outcomes\<close>

datatype XDim3 = XDim3 (dim_x: real) (dim_y: real) (dim_z: real)

record 'e RandomEngine =
  Random :: "'e \<Rightarrow> real \<times> 'e"
  RandomNormal :: "real \<Rightarrow> real \<Rightarrow> 'e \<Rightarrow> real \<times> 'e"

datatype 'a outcome = is_Returns: Returns 'a | is_Abort: Abort string "'a outcome"

text \<open>
  What a call of \<^verbatim>\<open>getMomentum\<close> yields: the aborts on the way, then either no result
  (a rejection loop that runs forever) or the momentum with the next engine state.
\<close>

type_synonym 'e sample = "(XDim3 \<times> 'e) option outcome"

text \<open>A call of \<^verbatim>\<open>amrex::Abort(msg)\<close> guarded by \<^verbatim>\<open>if (c)\<close>, followed by \<open>rest\<close>.\<close>

definition abort_if :: "bool \<Rightarrow> string \<Rightarrow> 'a outcome \<Rightarrow> 'a outcome" where
  "abort_if c msg rest = (if c then Abort msg rest else rest)"

text \<open>
  Modelled from the spec: the macro \<^verbatim>\<open>WARPX_ALWAYS_ASSERT_WITH_MESSAGE\<close> of
  \<^verbatim>\<open>Utils/TextMsg.H\<close>, which is not part of the sources at hand. The spec calls a failed
  assertion a fatal configuration error that aborts the run; the assertion passes when
  its condition holds.
\<close>

definition WARPX_ALWAYS_ASSERT_WITH_MESSAGE :: "bool \<Rightarrow> string \<Rightarrow> 'a outcome \<Rightarrow> 'a outcome" where
  "WARPX_ALWAYS_ASSERT_WITH_MESSAGE c msg rest = (if c then rest else Abort msg rest)"

text \<open>
  A stand-in engine for concrete runs: the state counts the draws, every uniform draw is
  \<open>r\<close> and every normal draw is \<open>mean + stddev * g\<close>.
\<close>

definition fixed_engine :: "real \<Rightarrow> real \<Rightarrow> nat RandomEngine" where
  "fixed_engine r g =
     \<lparr>Random = (\<lambda>n. (r, Suc n)), RandomNormal = (\<lambda>mean stddev n. (mean + stddev * g, Suc n))\<rparr>"

subsection \<open>\<^verbatim>\<open>InjectorMomentumConstant\<close>\<close>

record InjectorMomentumConstant =
  m_ux :: real
  m_uy :: real
  m_uz :: real

definition InjectorMomentumConstant_getMomentum ::
  "InjectorMomentumConstant \<Rightarrow> real \<Rightarrow> real \<Rightarrow> real \<Rightarrow> 'e \<Rightarrow> 'e sample" where
  "InjectorMomentumConstant_getMomentum this x y z engine =
     Returns (Some (XDim3 (m_ux this) (m_uy this) (m_uz this), engine))"

definition InjectorMomentumConstant_getBulkMomentum ::
  "InjectorMomentumConstant \<Rightarrow> real \<Rightarrow> real \<Rightarrow> real \<Rightarrow> XDim3" where
  "InjectorMomentumConstant_getBulkMomentum this x y z = XDim3 (m_ux this) (m_uy this) (m_uz this)"

subsection \<open>\<^verbatim>\<open>InjectorMomentumGaussian\<close>\<close>

text \<open>
  The three draws stand in a braced initialiser list, which C++ evaluates from left to
  right.
\<close>

record InjectorMomentumGaussian =
  m_ux_m :: real
  m_uy_m :: real
  m_uz_m :: real
  m_ux_th :: real
  m_uy_th :: real
  m_uz_th :: real

definition InjectorMomentumGaussian_getMomentum ::
  "'e RandomEngine \<Rightarrow> InjectorMomentumGaussian \<Rightarrow> real \<Rightarrow> real \<Rightarrow> real \<Rightarrow> 'e \<Rightarrow> 'e sample" where
  "InjectorMomentumGaussian_getMomentum R this x y z engine =
     (let (ux, engine1) = RandomNormal R (InjectorMomentumGaussian.m_ux_m this)
                            (InjectorMomentumGaussian.m_ux_th this) engine;
          (uy, engine2) = RandomNormal R (InjectorMomentumGaussian.m_uy_m this)
                            (InjectorMomentumGaussian.m_uy_th this) engine1;
          (uz, engine3) = RandomNormal R (InjectorMomentumGaussian.m_uz_m this)
                            (InjectorMomentumGaussian.m_uz_th this) engine2
      in Returns (Some (XDim3 ux uy uz, engine3)))"

definition InjectorMomentumGaussian_getBulkMomentum ::
  "InjectorMomentumGaussian \<Rightarrow> real \<Rightarrow> real \<Rightarrow> real \<Rightarrow> XDim3" where
  "InjectorMomentumGaussian_getBulkMomentum this x y z =
     XDim3 (InjectorMomentumGaussian.m_ux_m this) (InjectorMomentumGaussian.m_uy_m this)
       (InjectorMomentumGaussian.m_uz_m this)"

subsection \<open>The flux-weighted speed kernel \<^verbatim>\<open>generateGaussianFluxDist\<close>\<close>

text \<open>The \<^verbatim>\<open>while (reject)\<close> loop of the branch \<^verbatim>\<open>u_m < 0.6*u_th\<close>.\<close>

partial_function (option) flux_low_loop ::
  "'e RandomEngine \<Rightarrow> real \<Rightarrow> real \<Rightarrow> real \<Rightarrow> 'e \<Rightarrow> (real \<times> 'e) option" where
  "flux_low_loop R approx_u_th reject_prefactor u_th engine =
     (let (r, engine1) = Random R engine;
          xrand = 1 - r;
          u = approx_u_th * sqrt (2 * ln (1 / xrand));
          (xrand', engine2) = Random R engine1
      in if xrand' < exp (- reject_prefactor * (u - u_th) * (u - u_th)) then Some (u, engine2)
         else flux_low_loop R approx_u_th reject_prefactor u_th engine2)"

text \<open>The inner loop \<^verbatim>\<open>while (u < 0)\<close> of the other branch; it is entered with \<open>u = -1\<close>.\<close>

partial_function (option) flux_redraw ::
  "'e RandomEngine \<Rightarrow> real \<Rightarrow> real \<Rightarrow> real \<Rightarrow> 'e \<Rightarrow> (real \<times> 'e) option" where
  "flux_redraw R approx_u_m u_th u engine =
     (if u < 0 then
        (let (u', engine1) = RandomNormal R approx_u_m u_th engine
         in flux_redraw R approx_u_m u_th u' engine1)
      else Some (u, engine))"

text \<open>The outer \<^verbatim>\<open>while (reject)\<close> loop of that branch.\<close>

partial_function (option) flux_high_loop ::
  "'e RandomEngine \<Rightarrow> real \<Rightarrow> real \<Rightarrow> real \<Rightarrow> 'e \<Rightarrow> (real \<times> 'e) option" where
  "flux_high_loop R approx_u_m inv_um u_th engine =
     (case flux_redraw R approx_u_m u_th (- 1) engine of
        None \<Rightarrow> None
      | Some (u, engine1) \<Rightarrow>
          (let (xrand, engine2) = Random R engine1
           in if xrand < u * inv_um * exp (1 - u * inv_um) then Some (u, engine2)
              else flux_high_loop R approx_u_m inv_um u_th engine2))"

definition generateGaussianFluxDist ::
  "'e RandomEngine \<Rightarrow> real \<Rightarrow> real \<Rightarrow> 'e \<Rightarrow> (real \<times> 'e) option" where
  "generateGaussianFluxDist R u_m u_th engine =
     (if u_th = 0 then Some (u_m, engine)
      else if u_m < 0.6 * u_th then
        (let approx_u_th = u_th / sqrt (1 - u_m / u_th);
             reject_prefactor = (u_m / u_th) / (2 * u_th * u_th)
         in flux_low_loop R approx_u_th reject_prefactor u_th engine)
      else
        (let approx_u_m = u_m + u_th * u_th / u_m;
             inv_um = 1 / u_m
         in flux_high_loop R approx_u_m inv_um u_th engine))"

subsection \<open>\<^verbatim>\<open>InjectorMomentumGaussianFlux\<close>\<close>

record InjectorMomentumGaussianFlux =
  m_ux_m :: real
  m_uy_m :: real
  m_uz_m :: real
  m_ux_th :: real
  m_uy_th :: real
  m_uz_th :: real
  m_flux_normal_axis :: int
  m_flux_direction :: int

text \<open>The constructor: the members are set, then the assertion on \<open>raise_error\<close> runs.\<close>

definition InjectorMomentumGaussianFlux_new ::
  "real \<Rightarrow> real \<Rightarrow> real \<Rightarrow> real \<Rightarrow> real \<Rightarrow> real \<Rightarrow> int \<Rightarrow> int
     \<Rightarrow> InjectorMomentumGaussianFlux outcome" where
  "InjectorMomentumGaussianFlux_new a_ux_m a_uy_m a_uz_m a_ux_th a_uy_th a_uz_th
       a_flux_normal_axis a_flux_direction =
     (let this = \<lparr>m_ux_m = a_ux_m, m_uy_m = a_uy_m, m_uz_m = a_uz_m,
                  m_ux_th = a_ux_th, m_uy_th = a_uy_th, m_uz_th = a_uz_th,
                  m_flux_normal_axis = a_flux_normal_axis,
                  m_flux_direction = a_flux_direction\<rparr>;
          raise_error = False;
          raise_error = (if m_flux_normal_axis this = 0 \<and> m_ux_m this < 0 then True else raise_error);
          raise_error = (if m_flux_normal_axis this = 1 \<and> m_uy_m this < 0 then True else raise_error);
          raise_error = (if m_flux_normal_axis this = 2 \<and> m_uz_m this < 0 then True else raise_error)
      in WARPX_ALWAYS_ASSERT_WITH_MESSAGE (raise_error = False)
           ''When using the `gaussianflux` distribution, the central momentum along the flux axis must be positive or zero.''
           (Returns this))"

definition InjectorMomentumGaussianFlux_getMomentum ::
  "'e RandomEngine \<Rightarrow> InjectorMomentumGaussianFlux \<Rightarrow> real \<Rightarrow> real \<Rightarrow> real \<Rightarrow> 'e \<Rightarrow> 'e sample" where
  "InjectorMomentumGaussianFlux_getMomentum R this x y z engine =
     (let (u_m, u_th) =
            (if m_flux_normal_axis this = 0 then (m_ux_m this, m_ux_th this)
             else if m_flux_normal_axis this = 1 then (m_uy_m this, m_uy_th this)
             else if m_flux_normal_axis this = 2 then (m_uz_m this, m_uz_th this)
             else (0, 0))
      in Returns
          (case generateGaussianFluxDist R u_m u_th engine of
             None \<Rightarrow> None
           | Some (u0, engine0) \<Rightarrow>
               (let u = (if m_flux_direction this < 0 then - u0 else u0);
                    (ux, engine1) = (if m_flux_normal_axis this = 0 then (u, engine0)
                                     else RandomNormal R (m_ux_m this) (m_ux_th this) engine0);
                    (uy, engine2) = (if m_flux_normal_axis this = 1 then (u, engine1)
                                     else RandomNormal R (m_uy_m this) (m_uy_th this) engine1);
                    (uz, engine3) = (if m_flux_normal_axis this = 2 then (u, engine2)
                                     else RandomNormal R (m_uz_m this) (m_uz_th this) engine2)
                in Some (XDim3 ux uy uz, engine3))))"

definition InjectorMomentumGaussianFlux_getBulkMomentum ::
  "InjectorMomentumGaussianFlux \<Rightarrow> real \<Rightarrow> real \<Rightarrow> real \<Rightarrow> XDim3" where
  "InjectorMomentumGaussianFlux_getBulkMomentum this x y z =
     XDim3 (m_ux_m this) (m_uy_m this) (m_uz_m this)"

subsection \<open>\<^verbatim>\<open>InjectorMomentumUniform\<close>\<close>

record InjectorMomentumUniform =
  m_ux_min :: real
  m_uy_min :: real
  m_uz_min :: real
  m_ux_max :: real
  m_uy_max :: real
  m_uz_max :: real
  m_ux_h :: real
  m_uy_h :: real
  m_uz_h :: real
  m_Dux :: real
  m_Duy :: real
  m_Duz :: real

definition InjectorMomentumUniform_new ::
  "real \<Rightarrow> real \<Rightarrow> real \<Rightarrow> real \<Rightarrow> real \<Rightarrow> real \<Rightarrow> InjectorMomentumUniform" where
  "InjectorMomentumUniform_new a_ux_min a_uy_min a_uz_min a_ux_max a_uy_max a_uz_max =
     \<lparr>m_ux_min = a_ux_min, m_uy_min = a_uy_min, m_uz_min = a_uz_min,
      m_ux_max = a_ux_max, m_uy_max = a_uy_max, m_uz_max = a_uz_max,
      m_ux_h = 0.5 * (a_ux_max + a_ux_min),
      m_uy_h = 0.5 * (a_uy_max + a_uy_min),
      m_uz_h = 0.5 * (a_uz_max + a_uz_min),
      m_Dux = a_ux_max - a_ux_min,
      m_Duy = a_uy_max - a_uy_min,
      m_Duz = a_uz_max - a_uz_min\<rparr>"

definition InjectorMomentumUniform_getMomentum ::
  "'e RandomEngine \<Rightarrow> InjectorMomentumUniform \<Rightarrow> real \<Rightarrow> real \<Rightarrow> real \<Rightarrow> 'e \<Rightarrow> 'e sample" where
  "InjectorMomentumUniform_getMomentum R this x y z engine =
     (let (r1, engine1) = Random R engine;
          (r2, engine2) = Random R engine1;
          (r3, engine3) = Random R engine2
      in Returns (Some (XDim3 (m_ux_min this + r1 * m_Dux this)
                              (m_uy_min this + r2 * m_Duy this)
                              (m_uz_min this + r3 * m_Duz this), engine3)))"

definition InjectorMomentumUniform_getBulkMomentum ::
  "InjectorMomentumUniform \<Rightarrow> real \<Rightarrow> real \<Rightarrow> real \<Rightarrow> XDim3" where
  "InjectorMomentumUniform_getBulkMomentum this x y z = XDim3 (m_ux_h this) (m_uy_h this) (m_uz_h this)"

subsection \<open>The field evaluators\<close>

text \<open>
  Modelled from the spec: \<^verbatim>\<open>GetTemperature\<close> and \<^verbatim>\<open>GetVelocity\<close>, declared in headers
  that are not part of the sources at hand. The spec gives their interface:
  \<^verbatim>\<open>Temperature(x,y,z) -> real\<close>, \<^verbatim>\<open>Velocity(x,y,z) -> real\<close> and a fixed
  \<^verbatim>\<open>direction() -> {0,1,2}\<close>. The call operator of \<^verbatim>\<open>GetVelocity\<close> is the field
  \<open>velocity_at\<close>. The samplers index a three-element array with \<open>direction\<close>; the
  properties below assume it is less than 3, as the interface says.
\<close>

type_synonym GetTemperature = "real \<Rightarrow> real \<Rightarrow> real \<Rightarrow> real"

record GetVelocity =
  velocity_at :: "real \<Rightarrow> real \<Rightarrow> real \<Rightarrow> real"
  direction :: nat

subsection \<open>\<^verbatim>\<open>InjectorMomentumBoltzmann\<close>\<close>

record InjectorMomentumBoltzmann =
  velocity :: GetVelocity
  temperature :: GetTemperature

text \<open>
  The local-frame sample of \<^verbatim>\<open>getMomentum\<close>: the three normal draws and \<open>gamma\<close>. The
  array \<^verbatim>\<open>u[3]\<close> is a list; the source leaves it uninitialised and writes all three
  entries before it reads any.
\<close>

definition InjectorMomentumBoltzmann_local ::
  "'e RandomEngine \<Rightarrow> real \<Rightarrow> nat \<Rightarrow> 'e \<Rightarrow> real list \<times> real \<times> 'e" where
  "InjectorMomentumBoltzmann_local R theta dir engine =
     (let vave = sqrt theta;
          u = [0, 0, 0];
          (n0, engine1) = RandomNormal R 0 vave engine;
          u = u[dir := n0];
          (n1, engine2) = RandomNormal R 0 vave engine1;
          u = u[(dir + 1) mod 3 := n1];
          (n2, engine3) = RandomNormal R 0 vave engine2;
          u = u[(dir + 2) mod 3 := n2];
          gamma = sqrt (1 + u ! 0 * u ! 0 + u ! 1 * u ! 1 + u ! 2 * u ! 2)
      in (u, gamma, engine3))"

text \<open>The flipping method and the Lorentz transform that end \<^verbatim>\<open>getMomentum\<close>.\<close>

definition InjectorMomentumBoltzmann_transform ::
  "'e RandomEngine \<Rightarrow> real \<Rightarrow> nat \<Rightarrow> real list \<Rightarrow> real \<Rightarrow> 'e \<Rightarrow> XDim3 \<times> 'e" where
  "InjectorMomentumBoltzmann_transform R beta dir u gamma engine =
     (let (r, engine1) = Random R engine;
          u = (if - beta * u ! dir / gamma > r then u[dir := - u ! dir] else u);
          u = u[dir := 1 / sqrt (1 - beta * beta) * (u ! dir + gamma * beta)]
      in (XDim3 (u ! 0) (u ! 1) (u ! 2), engine1))"

definition InjectorMomentumBoltzmann_getMomentum ::
  "'e RandomEngine \<Rightarrow> InjectorMomentumBoltzmann \<Rightarrow> real \<Rightarrow> real \<Rightarrow> real \<Rightarrow> 'e \<Rightarrow> 'e sample" where
  "InjectorMomentumBoltzmann_getMomentum R this x y z engine =
     (let theta = temperature this x y z
      in abort_if (theta < 0)
           ''Negative temperature parameter theta encountered, which is not allowed''
           (let beta = velocity_at (velocity this) x y z
            in abort_if (beta \<le> - 1 \<or> beta \<ge> 1)
                 ''beta = v/c magnitude greater than or equal to 1''
                 (let dir = direction (velocity this);
                      (u, gamma, engine1) = InjectorMomentumBoltzmann_local R theta dir engine
                  in Returns (Some (InjectorMomentumBoltzmann_transform R beta dir u gamma engine1)))))"

definition InjectorMomentumBoltzmann_getBulkMomentum ::
  "InjectorMomentumBoltzmann \<Rightarrow> real \<Rightarrow> real \<Rightarrow> real \<Rightarrow> XDim3" where
  "InjectorMomentumBoltzmann_getBulkMomentum this x y z =
     (let u = [0, 0, 0];
          beta = velocity_at (velocity this) x y z;
          dir = direction (velocity this);
          gamma = 1 / sqrt (1 - beta * beta);
          u = u[dir := gamma * beta]
      in XDim3 (u ! 0) (u ! 1) (u ! 2))"

subsection \<open>\<^verbatim>\<open>InjectorMomentumJuttner\<close>\<close>

record InjectorMomentumJuttner =
  velocity :: GetVelocity
  temperature :: GetTemperature

text \<open>
  The loop \<^verbatim>\<open>while (u[dir]-gamma <= x1)\<close>, on the variables it changes. The three draws
  of the product are taken in some order that C++ leaves open; the product is the same.
\<close>

partial_function (option) InjectorMomentumJuttner_loop ::
  "'e RandomEngine \<Rightarrow> real \<Rightarrow> real \<Rightarrow> real \<Rightarrow> real \<Rightarrow> 'e \<Rightarrow> (real \<times> real \<times> real \<times> 'e) option" where
  "InjectorMomentumJuttner_loop R theta u_dir gamma x1 engine =
     (if u_dir - gamma \<le> x1 then
        (let (r1, engine1) = Random R engine;
             (r2, engine2) = Random R engine1;
             (r3, engine3) = Random R engine2;
             u_dir' = - theta * ln (r1 * r2 * r3);
             gamma' = sqrt (1 + u_dir' * u_dir');
             (r4, engine4) = Random R engine3;
             x1' = theta * ln r4
         in InjectorMomentumJuttner_loop R theta u_dir' gamma' x1' engine4)
      else Some (u_dir, gamma, x1, engine))"

text \<open>
  The local-frame sample of \<^verbatim>\<open>getMomentum\<close>: from the initialisation of \<open>x1\<close>,
  \<open>gamma\<close> and \<open>u[dir]\<close> to the random unit vector scaled by the speed.
\<close>

definition InjectorMomentumJuttner_local ::
  "'e RandomEngine \<Rightarrow> real \<Rightarrow> nat \<Rightarrow> 'e \<Rightarrow> (real list \<times> real \<times> 'e) option" where
  "InjectorMomentumJuttner_local R theta dir engine =
     (let x1 = 0;
          gamma = 0;
          u = [0, 0, 0][dir := 0]
      in case InjectorMomentumJuttner_loop R theta (u ! dir) gamma x1 engine of
           None \<Rightarrow> None
         | Some (u_dir, gamma, x1, engine1) \<Rightarrow>
             (let u = u[dir := u_dir];
                  (x1, engine2) = Random R engine1;
                  (x2, engine3) = Random R engine2;
                  u = u[(dir + 1) mod 3 := 2 * u ! dir * sqrt (x1 * (1 - x1)) * sin (2 * pi * x2)];
                  u = u[(dir + 2) mod 3 := 2 * u ! dir * sqrt (x1 * (1 - x1)) * cos (2 * pi * x2)];
                  u = u[dir := u ! dir * (2 * x1 - 1)]
              in Some (u, gamma, engine3)))"

definition InjectorMomentumJuttner_transform ::
  "'e RandomEngine \<Rightarrow> real \<Rightarrow> nat \<Rightarrow> real list \<Rightarrow> real \<Rightarrow> 'e \<Rightarrow> XDim3 \<times> 'e" where
  "InjectorMomentumJuttner_transform R beta dir u gamma engine =
     (let (x1, engine1) = Random R engine;
          u = (if - beta * u ! dir / gamma > x1 then u[dir := - u ! dir] else u);
          u = u[dir := 1 / sqrt (1 - beta * beta) * (u ! dir + gamma * beta)]
      in (XDim3 (u ! 0) (u ! 1) (u ! 2), engine1))"

definition InjectorMomentumJuttner_getMomentum ::
  "'e RandomEngine \<Rightarrow> InjectorMomentumJuttner \<Rightarrow> real \<Rightarrow> real \<Rightarrow> real \<Rightarrow> 'e \<Rightarrow> 'e sample" where
  "InjectorMomentumJuttner_getMomentum R this x y z engine =
     (let theta = temperature this x y z
      in abort_if (theta < 0.1)
           ''Temeprature parameter theta is less than minimum 0.1 allowed for Maxwell-Juttner''
           (let beta = velocity_at (velocity this) x y z
            in abort_if (beta \<le> - 1 \<or> beta \<ge> 1)
                 ''beta = v/c magnitude greater than or equal to 1''
                 (let dir = direction (velocity this)
                  in Returns
                      (case InjectorMomentumJuttner_local R theta dir engine of
                         None \<Rightarrow> None
                       | Some (u, gamma, engine1) \<Rightarrow>
                           Some (InjectorMomentumJuttner_transform R beta dir u gamma engine1)))))"

definition InjectorMomentumJuttner_getBulkMomentum ::
  "InjectorMomentumJuttner \<Rightarrow> real \<Rightarrow> real \<Rightarrow> real \<Rightarrow> XDim3" where
  "InjectorMomentumJuttner_getBulkMomentum this x y z =
     (let u = [0, 0, 0];
          beta = velocity_at (velocity this) x y z;
          dir = direction (velocity this);
          gamma = 1 / sqrt (1 - beta * beta);
          u = u[dir := gamma * beta]
      in XDim3 (u ! 0) (u ! 1) (u ! 2))"

subsection \<open>\<^verbatim>\<open>InjectorMomentumRadialExpansion\<close> and \<^verbatim>\<open>InjectorMomentumParser\<close>\<close>

record InjectorMomentumRadialExpansion =
  u_over_r :: real

definition InjectorMomentumRadialExpansion_getMomentum ::
  "InjectorMomentumRadialExpansion \<Rightarrow> real \<Rightarrow> real \<Rightarrow> real \<Rightarrow> 'e \<Rightarrow> 'e sample" where
  "InjectorMomentumRadialExpansion_getMomentum this x y z engine =
     Returns (Some (XDim3 (x * u_over_r this) (y * u_over_r this) (z * u_over_r this), engine))"

definition InjectorMomentumRadialExpansion_getBulkMomentum ::
  "InjectorMomentumRadialExpansion \<Rightarrow> real \<Rightarrow> real \<Rightarrow> real \<Rightarrow> XDim3" where
  "InjectorMomentumRadialExpansion_getBulkMomentum this x y z =
     XDim3 (x * u_over_r this) (y * u_over_r this) (z * u_over_r this)"

text \<open>An \<^verbatim>\<open>amrex::ParserExecutor<3>\<close> is a function of the three coordinates.\<close>

record InjectorMomentumParser =
  m_ux_parser :: "real \<Rightarrow> real \<Rightarrow> real \<Rightarrow> real"
  m_uy_parser :: "real \<Rightarrow> real \<Rightarrow> real \<Rightarrow> real"
  m_uz_parser :: "real \<Rightarrow> real \<Rightarrow> real \<Rightarrow> real"

definition InjectorMomentumParser_getMomentum ::
  "InjectorMomentumParser \<Rightarrow> real \<Rightarrow> real \<Rightarrow> real \<Rightarrow> 'e \<Rightarrow> 'e sample" where
  "InjectorMomentumParser_getMomentum this x y z engine =
     Returns (Some (XDim3 (m_ux_parser this x y z) (m_uy_parser this x y z) (m_uz_parser this x y z),
                    engine))"

definition InjectorMomentumParser_getBulkMomentum ::
  "InjectorMomentumParser \<Rightarrow> real \<Rightarrow> real \<Rightarrow> real \<Rightarrow> XDim3" where
  "InjectorMomentumParser_getBulkMomentum this x y z =
     XDim3 (m_ux_parser this x y z) (m_uy_parser this x y z) (m_uz_parser this x y z)"

subsection \<open>The selector \<^verbatim>\<open>InjectorMomentum\<close>\<close>

text \<open>
  \<^verbatim>\<open>enum struct Type\<close> has the underlying type \<^verbatim>\<open>int\<close>, so the member \<^verbatim>\<open>type\<close> can
  hold any integer; the enumerators are 0 to 7 in the order of their declaration. The
  union \<^verbatim>\<open>Object\<close> is a datatype with one constructor for each member, and the member
  access \<^verbatim>\<open>object.parser\<close> is the selector \<open>object_parser\<close>: applied to an object whose active
  member is another one it is unspecified, as the read is in C++.
\<close>

definition Type_constant :: int where "Type_constant = 0"
definition Type_gaussian :: int where "Type_gaussian = 1"
definition Type_gaussianflux :: int where "Type_gaussianflux = 2"
definition Type_uniform :: int where "Type_uniform = 3"
definition Type_boltzmann :: int where "Type_boltzmann = 4"
definition Type_juttner :: int where "Type_juttner = 5"
definition Type_radial_expansion :: int where "Type_radial_expansion = 6"
definition Type_parser :: int where "Type_parser = 7"

datatype Object =
    Active_constant (object_constant: InjectorMomentumConstant)
  | Active_gaussian (object_gaussian: InjectorMomentumGaussian)
  | Active_gaussianflux (object_gaussianflux: InjectorMomentumGaussianFlux)
  | Active_uniform (object_uniform: InjectorMomentumUniform)
  | Active_boltzmann (object_boltzmann: InjectorMomentumBoltzmann)
  | Active_juttner (object_juttner: InjectorMomentumJuttner)
  | Active_radial_expansion (object_radial_expansion: InjectorMomentumRadialExpansion)
  | Active_parser (object_parser: InjectorMomentumParser)

record InjectorMomentum =
  type :: int
  object :: Object

definition InjectorMomentum_getMomentum ::
  "'e RandomEngine \<Rightarrow> InjectorMomentum \<Rightarrow> real \<Rightarrow> real \<Rightarrow> real \<Rightarrow> 'e \<Rightarrow> 'e sample" where
  "InjectorMomentum_getMomentum R this x y z engine =
     (if type this = Type_parser then
        InjectorMomentumParser_getMomentum (object_parser (object this)) x y z engine
      else if type this = Type_gaussian then
        InjectorMomentumGaussian_getMomentum R (object_gaussian (object this)) x y z engine
      else if type this = Type_gaussianflux then
        InjectorMomentumGaussianFlux_getMomentum R (object_gaussianflux (object this)) x y z engine
      else if type this = Type_uniform then
        InjectorMomentumUniform_getMomentum R (object_uniform (object this)) x y z engine
      else if type this = Type_boltzmann then
        InjectorMomentumBoltzmann_getMomentum R (object_boltzmann (object this)) x y z engine
      else if type this = Type_juttner then
        InjectorMomentumJuttner_getMomentum R (object_juttner (object this)) x y z engine
      else if type this = Type_constant then
        InjectorMomentumConstant_getMomentum (object_constant (object this)) x y z engine
      else if type this = Type_radial_expansion then
        InjectorMomentumRadialExpansion_getMomentum (object_radial_expansion (object this)) x y z engine
      else Abort ''InjectorMomentum: unknown type'' (Returns (Some (XDim3 0.0 0.0 0.0, engine))))"

definition InjectorMomentum_getBulkMomentum ::
  "InjectorMomentum \<Rightarrow> real \<Rightarrow> real \<Rightarrow> real \<Rightarrow> XDim3 outcome" where
  "InjectorMomentum_getBulkMomentum this x y z =
     (if type this = Type_parser then
        Returns (InjectorMomentumParser_getBulkMomentum (object_parser (object this)) x y z)
      else if type this = Type_gaussian then
        Returns (InjectorMomentumGaussian_getBulkMomentum (object_gaussian (object this)) x y z)
      else if type this = Type_gaussianflux then
        Returns (InjectorMomentumGaussianFlux_getBulkMomentum (object_gaussianflux (object this)) x y z)
      else if type this = Type_uniform then
        Returns (InjectorMomentumUniform_getBulkMomentum (object_uniform (object this)) x y z)
      else if type this = Type_boltzmann then
        Returns (InjectorMomentumBoltzmann_getBulkMomentum (object_boltzmann (object this)) x y z)
      else if type this = Type_juttner then
        Returns (InjectorMomentumJuttner_getBulkMomentum (object_juttner (object this)) x y z)
      else if type this = Type_constant then
        Returns (InjectorMomentumConstant_getBulkMomentum (object_constant (object this)) x y z)
      else if type this = Type_radial_expansion then
        Returns (InjectorMomentumRadialExpansion_getBulkMomentum (object_radial_expansion (object this)) x y z)
      else Abort ''InjectorMomentum: unknown type'' (Returns (XDim3 0.0 0.0 0.0)))"

section \<open>The specification's wording of the two rejection samplers\<close>

text \<open>
  The flux kernel, as the specification describes its two regimes. The low-drift regime
  proposes \<open>u_approx * sqrt (- 2 * ln \<xi>)\<close> with \<open>u_approx = u_th / sqrt (1 - u_m / u_th)\<close>,
  where \<open>\<xi>\<close> is one minus a uniform draw (in \<open>(0, 1]\<close> for a draw in \<open>[0, 1)\<close>), and
  accepts it when a further uniform draw is below \<open>exp (- prefactor * (u - u_th)\<^sup>2)\<close>.
\<close>

partial_function (option) spec_low_drift ::
  "'e RandomEngine \<Rightarrow> real \<Rightarrow> real \<Rightarrow> 'e \<Rightarrow> (real \<times> 'e) option" where
  "spec_low_drift R u_m u_th engine =
     (let u_approx = u_th / sqrt (1 - u_m / u_th);
          prefactor = (u_m / u_th) / (2 * u_th\<^sup>2);
          (r, engine1) = Random R engine;
          \<xi> = 1 - r;
          u = u_approx * sqrt (- 2 * ln \<xi>);
          (a, engine2) = Random R engine1
      in if a < exp (- prefactor * (u - u_th)\<^sup>2) then Some (u, engine2)
         else spec_low_drift R u_m u_th engine2)"

text \<open>A normal draw, drawn again while it is negative.\<close>

partial_function (option) spec_positive_normal ::
  "'e RandomEngine \<Rightarrow> real \<Rightarrow> real \<Rightarrow> 'e \<Rightarrow> (real \<times> 'e) option" where
  "spec_positive_normal R mean stddev engine =
     (let (u, engine1) = RandomNormal R mean stddev engine
      in if u < 0 then spec_positive_normal R mean stddev engine1 else Some (u, engine1))"

text \<open>
  The high-drift regime proposes from the normal distribution centred at
  \<open>u_m + u_th\<^sup>2 / u_m\<close> with standard deviation \<open>u_th\<close> and accepts when a uniform draw
  is below \<open>(u / u_m) * exp (1 - u / u_m)\<close>.
\<close>

partial_function (option) spec_high_drift ::
  "'e RandomEngine \<Rightarrow> real \<Rightarrow> real \<Rightarrow> 'e \<Rightarrow> (real \<times> 'e) option" where
  "spec_high_drift R u_m u_th engine =
     (case spec_positive_normal R (u_m + u_th\<^sup>2 / u_m) u_th engine of
        None \<Rightarrow> None
      | Some (u, engine1) \<Rightarrow>
          (let (a, engine2) = Random R engine1
           in if a < (u / u_m) * exp (1 - u / u_m) then Some (u, engine2)
              else spec_high_drift R u_m u_th engine2))"

text \<open>
  Sobol's rejection loop for the speed of the Juttner sampler: draw \<open>u_axis\<close>,
  \<open>\<gamma>\<close> and the threshold \<open>x1\<close> from four uniform draws, and again while
  \<open>u_axis - \<gamma> \<le> x1\<close>.
\<close>

partial_function (option) spec_sobol_speed ::
  "'e RandomEngine \<Rightarrow> real \<Rightarrow> 'e \<Rightarrow> (real \<times> real \<times> 'e) option" where
  "spec_sobol_speed R \<theta> engine =
     (let (\<xi>1, engine1) = Random R engine;
          (\<xi>2, engine2) = Random R engine1;
          (\<xi>3, engine3) = Random R engine2;
          (\<xi>4, engine4) = Random R engine3;
          u_axis = - \<theta> * ln (\<xi>1 * \<xi>2 * \<xi>3);
          \<gamma> = sqrt (1 + u_axis\<^sup>2);
          x1 = \<theta> * ln \<xi>4
      in if u_axis - \<gamma> \<le> x1 then spec_sobol_speed R \<theta> engine4
         else Some (u_axis, \<gamma>, engine4))"

text \<open>
  The local-frame stage: the accepted speed is spread over a direction with two fresh
  uniform draws \<open>x1\<close> and \<open>x2\<close>. The result is the vector with its boost-axis entry at
  \<open>dir\<close> and the transverse entries at the next two axes, with \<open>\<gamma>\<close> and the engine.
\<close>

definition spec_juttner_local ::
  "'e RandomEngine \<Rightarrow> real \<Rightarrow> nat \<Rightarrow> 'e \<Rightarrow> (real list \<times> real \<times> 'e) option" where
  "spec_juttner_local R \<theta> dir engine =
     (case spec_sobol_speed R \<theta> engine of
        None \<Rightarrow> None
      | Some (u_axis, \<gamma>, engine1) \<Rightarrow>
          (let (x1, engine2) = Random R engine1;
               (x2, engine3) = Random R engine2;
               boost_axis = u_axis * (2 * x1 - 1);
               transverse1 = 2 * u_axis * sqrt (x1 * (1 - x1)) * sin (2 * pi * x2);
               transverse2 = 2 * u_axis * sqrt (x1 * (1 - x1)) * cos (2 * pi * x2)
           in Some (map (\<lambda>i. if i = dir then boost_axis
                               else if i = (dir + 1) mod 3 then transverse1
                               else transverse2) [0, 1, 2],
                    \<gamma>, engine3)))"

text \<open>The component of a momentum along axis 0, 1 or 2.\<close>

definition component :: "XDim3 \<Rightarrow> nat \<Rightarrow> real" where
  "component v i = [dim_x v, dim_y v, dim_z v] ! i"

section \<open>The mean queries on values that may be infinite or not a number\<close>

text \<open>
  The type \<^typ>\<open>real\<close> has no infinity and no NaN, so what \<^verbatim>\<open>getBulkMomentum\<close> of the
  Boltzmann and the Juttner sampler returns where \<open>1 - beta * beta\<close> is zero or negative
  needs the special values of IEEE arithmetic. A value is a finite real, plus or minus
  infinity, or NaN; the operations on finite values are exact (no rounding), and the
  special cases are those of IEEE 754: a finite nonzero value over zero is an infinity
  with the sign of the numerator, zero over zero and the products of zero and an
  infinity are NaN, an infinity minus itself is NaN, the square root of a negative value
  is NaN, and NaN propagates. There is one zero, taken as the positive zero: this is
  what \<open>1 - beta * beta\<close> is in round-to-nearest when it is zero.
\<close>

datatype ieee = is_Fin: Fin real | PInf | MInf | NaN

fun ieee_times :: "ieee \<Rightarrow> ieee \<Rightarrow> ieee" where
  "ieee_times NaN b = NaN"
| "ieee_times a NaN = NaN"
| "ieee_times (Fin a) (Fin b) = Fin (a * b)"
| "ieee_times (Fin a) PInf = (if 0 < a then PInf else if a < 0 then MInf else NaN)"
| "ieee_times (Fin a) MInf = (if 0 < a then MInf else if a < 0 then PInf else NaN)"
| "ieee_times PInf (Fin b) = (if 0 < b then PInf else if b < 0 then MInf else NaN)"
| "ieee_times MInf (Fin b) = (if 0 < b then MInf else if b < 0 then PInf else NaN)"
| "ieee_times PInf PInf = PInf"
| "ieee_times PInf MInf = MInf"
| "ieee_times MInf PInf = MInf"
| "ieee_times MInf MInf = PInf"

fun ieee_minus :: "ieee \<Rightarrow> ieee \<Rightarrow> ieee" where
  "ieee_minus NaN b = NaN"
| "ieee_minus a NaN = NaN"
| "ieee_minus (Fin a) (Fin b) = Fin (a - b)"
| "ieee_minus (Fin a) PInf = MInf"
| "ieee_minus (Fin a) MInf = PInf"
| "ieee_minus PInf (Fin b) = PInf"
| "ieee_minus MInf (Fin b) = MInf"
| "ieee_minus PInf PInf = NaN"
| "ieee_minus PInf MInf = PInf"
| "ieee_minus MInf PInf = MInf"
| "ieee_minus MInf MInf = NaN"

fun ieee_sqrt :: "ieee \<Rightarrow> ieee" where
  "ieee_sqrt (Fin a) = (if a < 0 then NaN else Fin (sqrt a))"
| "ieee_sqrt PInf = PInf"
| "ieee_sqrt MInf = NaN"
| "ieee_sqrt NaN = NaN"

fun ieee_divide :: "ieee \<Rightarrow> ieee \<Rightarrow> ieee" where
  "ieee_divide NaN b = NaN"
| "ieee_divide a NaN = NaN"
| "ieee_divide (Fin a) (Fin b) =
     (if b = 0 then (if 0 < a then PInf else if a < 0 then MInf else NaN) else Fin (a / b))"
| "ieee_divide (Fin a) PInf = Fin 0"
| "ieee_divide (Fin a) MInf = Fin 0"
| "ieee_divide PInf (Fin b) = (if 0 \<le> b then PInf else MInf)"
| "ieee_divide MInf (Fin b) = (if 0 \<le> b then MInf else PInf)"
| "ieee_divide PInf PInf = NaN"
| "ieee_divide PInf MInf = NaN"
| "ieee_divide MInf PInf = NaN"
| "ieee_divide MInf MInf = NaN"

datatype XDim3_ieee = XDim3_ieee (ieee_x: ieee) (ieee_y: ieee) (ieee_z: ieee)

definition component_ieee :: "XDim3_ieee \<Rightarrow> nat \<Rightarrow> ieee" where
  "component_ieee v i = [ieee_x v, ieee_y v, ieee_z v] ! i"

text \<open>A momentum of finite values among these.\<close>

definition XDim3_finite :: "XDim3 \<Rightarrow> XDim3_ieee" where
  "XDim3_finite v = XDim3_ieee (Fin (dim_x v)) (Fin (dim_y v)) (Fin (dim_z v))"

text \<open>
  \<^verbatim>\<open>InjectorMomentumBoltzmann::getBulkMomentum\<close> and
  \<^verbatim>\<open>InjectorMomentumJuttner::getBulkMomentum\<close> once more, statement by statement, on
  these values. The velocity evaluator yields a finite \<open>beta\<close>.
\<close>

definition InjectorMomentumBoltzmann_getBulkMomentum_ieee ::
  "InjectorMomentumBoltzmann \<Rightarrow> real \<Rightarrow> real \<Rightarrow> real \<Rightarrow> XDim3_ieee" where
  "InjectorMomentumBoltzmann_getBulkMomentum_ieee this x y z =
     (let u = [Fin 0, Fin 0, Fin 0];
          beta = Fin (velocity_at (InjectorMomentumBoltzmann.velocity this) x y z);
          dir = direction (InjectorMomentumBoltzmann.velocity this);
          gamma = ieee_divide (Fin 1) (ieee_sqrt (ieee_minus (Fin 1) (ieee_times beta beta)));
          u = u[dir := ieee_times gamma beta]
      in XDim3_ieee (u ! 0) (u ! 1) (u ! 2))"

definition InjectorMomentumJuttner_getBulkMomentum_ieee ::
  "InjectorMomentumJuttner \<Rightarrow> real \<Rightarrow> real \<Rightarrow> real \<Rightarrow> XDim3_ieee" where
  "InjectorMomentumJuttner_getBulkMomentum_ieee this x y z =
     (let u = [Fin 0, Fin 0, Fin 0];
          beta = Fin (velocity_at (InjectorMomentumJuttner.velocity this) x y z);
          dir = direction (InjectorMomentumJuttner.velocity this);
          gamma = ieee_divide (Fin 1) (ieee_sqrt (ieee_minus (Fin 1) (ieee_times beta beta)));
          u = u[dir := ieee_times gamma beta]
      in XDim3_ieee (u ! 0) (u ! 1) (u ! 2))"

section \<open>Properties\<close>

subsection \<open>The flux kernel\<close>

text \<open>
  C5. With spread \<open>u_th = 0\<close> the kernel returns exactly the central value \<open>u_m\<close>, for
  every \<open>u_m\<close> and every engine state: the engine state comes back unchanged (no draw
  is consumed) and neither loop, with its divisions by \<open>u_th\<close> and \<open>u_m\<close>, is entered.
\<close>

theorem flux_kernel_zero_spread:
  "generateGaussianFluxDist R u_m 0 engine = Some (u_m, engine)"
  by (simp add: generateGaussianFluxDist_def)

theorem flux_kernel_zero_spread_witness:
  "generateGaussianFluxDist (fixed_engine (1 / 2) 1) (- 3) 0 7 = Some (- 3, 7)"
  using flux_kernel_zero_spread [of "fixed_engine (1 / 2) 1" "- 3" 7] by simp

text \<open>The loop of the low-drift branch is the specification's loop.\<close>

lemma flux_low_code_spec:
  assumes "flux_low_loop R a p t e = Some r"
  shows "\<forall>u_m. a = t / sqrt (1 - u_m / t) \<longrightarrow> p = (u_m / t) / (2 * t * t) \<longrightarrow>
           spec_low_drift R u_m t e = Some r"
  apply (rule flux_low_loop.raw_induct[where P = "\<lambda>R a p t e r.
           \<forall>u_m. a = t / sqrt (1 - u_m / t) \<longrightarrow> p = (u_m / t) / (2 * t * t) \<longrightarrow>
             spec_low_drift R u_m t e = Some r", OF _ assms])
  apply (intro allI impI)
  apply (subst spec_low_drift.simps)
  apply (auto simp: Let_def ln_div power2_eq_square mult.assoc split: prod.splits if_splits)
  done

lemma flux_low_spec_code:
  assumes "spec_low_drift R u_m t e = Some r"
  shows "t \<noteq> 0 \<longrightarrow>
           flux_low_loop R (t / sqrt (1 - u_m / t)) ((u_m / t) / (2 * t * t)) t e = Some r"
  apply (rule spec_low_drift.raw_induct[where P = "\<lambda>R u_m t e r. t \<noteq> 0 \<longrightarrow>
           flux_low_loop R (t / sqrt (1 - u_m / t)) ((u_m / t) / (2 * t * t)) t e = Some r",
           OF _ assms])
  apply (rule impI)
  apply (subst flux_low_loop.simps)
  apply (auto simp: Let_def ln_div power2_eq_square mult.assoc split: prod.splits if_splits)
  done

lemma flux_low_eq:
  assumes "t \<noteq> 0"
  shows "flux_low_loop R (t / sqrt (1 - u_m / t)) ((u_m / t) / (2 * t * t)) t e
           = spec_low_drift R u_m t e"
proof (cases "spec_low_drift R u_m t e")
  case None
  then show ?thesis
    using flux_low_code_spec[of R _ _ t e]
    by (cases "flux_low_loop R (t / sqrt (1 - u_m / t)) ((u_m / t) / (2 * t * t)) t e") auto
next
  case (Some r)
  then show ?thesis using flux_low_spec_code assms by metis
qed

text \<open>The inner loop entered with \<open>u = -1\<close> draws once and again while the draw is negative.\<close>

lemma flux_redraw_done: "\<not> u < 0 \<Longrightarrow> flux_redraw R m s u e = Some (u, e)"
  by (subst flux_redraw.simps) simp

lemma flux_redraw_code_spec:
  assumes "flux_redraw R m s u e = Some r"
  shows "(u < 0 \<longrightarrow> spec_positive_normal R m s e = Some r) \<and> (\<not> u < 0 \<longrightarrow> r = (u, e))"
  apply (rule flux_redraw.raw_induct[where P = "\<lambda>R m s u e r.
           (u < 0 \<longrightarrow> spec_positive_normal R m s e = Some r) \<and> (\<not> u < 0 \<longrightarrow> r = (u, e))",
           OF _ assms])
  apply (subst spec_positive_normal.simps)
  apply (fastforce simp: Let_def split: prod.splits if_splits)
  done

lemma flux_redraw_spec_code:
  assumes "spec_positive_normal R m s e = Some r"
  shows "\<forall>u<0. flux_redraw R m s u e = Some r"
  apply (rule spec_positive_normal.raw_induct[where P = "\<lambda>R m s e r.
           \<forall>u<0. flux_redraw R m s u e = Some r", OF _ assms])
  apply (intro allI impI)
  apply (subst flux_redraw.simps)
  apply (auto simp: Let_def flux_redraw_done split: prod.splits if_splits)
  done

lemma flux_redraw_eq: "flux_redraw R m s (- 1) e = spec_positive_normal R m s e"
proof (cases "spec_positive_normal R m s e")
  case None
  then show ?thesis
    using flux_redraw_code_spec[of R m s "- 1" e]
    by (cases "flux_redraw R m s (- 1) e") auto
next
  case (Some r)
  then show ?thesis using flux_redraw_spec_code[of R m s e r] by simp
qed

lemma flux_high_code_spec:
  assumes "flux_high_loop R a b t e = Some r"
  shows "\<forall>u_m. a = u_m + t * t / u_m \<longrightarrow> b = 1 / u_m \<longrightarrow> spec_high_drift R u_m t e = Some r"
  apply (rule flux_high_loop.raw_induct[where P = "\<lambda>R a b t e r.
           \<forall>u_m. a = u_m + t * t / u_m \<longrightarrow> b = 1 / u_m \<longrightarrow> spec_high_drift R u_m t e = Some r",
           OF _ assms])
  apply (intro allI impI)
  apply (subst spec_high_drift.simps)
  apply (auto simp: Let_def flux_redraw_eq power2_eq_square split: prod.splits if_splits option.splits)
  done

lemma flux_high_spec_code:
  assumes "spec_high_drift R u_m t e = Some r"
  shows "flux_high_loop R (u_m + t * t / u_m) (1 / u_m) t e = Some r"
  apply (rule spec_high_drift.raw_induct[where P = "\<lambda>R u_m t e r.
           flux_high_loop R (u_m + t * t / u_m) (1 / u_m) t e = Some r", OF _ assms])
  apply (subst flux_high_loop.simps)
  apply (auto simp: Let_def flux_redraw_eq power2_eq_square split: prod.splits if_splits option.splits)
  done

lemma flux_high_eq:
  "flux_high_loop R (u_m + t * t / u_m) (1 / u_m) t e = spec_high_drift R u_m t e"
proof (cases "spec_high_drift R u_m t e")
  case None
  then show ?thesis
    using flux_high_code_spec[of R _ _ t e]
    by (cases "flux_high_loop R (u_m + t * t / u_m) (1 / u_m) t e") auto
next
  case (Some r)
  then show ?thesis using flux_high_spec_code by metis
qed

text \<open>
  C1. For every \<open>u_m\<close> and every \<open>u_th > 0\<close> the kernel chooses its branch by
  \<open>u_m < 0.6 * u_th\<close>. In the low-drift branch it is the specification's loop
  \<open>spec_low_drift\<close>: inverse-CDF proposal \<open>u_approx * sqrt (- 2 * ln \<xi>)\<close>, accepted when
  a uniform draw is below \<open>exp (- prefactor * (u - u_th)\<^sup>2)\<close>. In the high-drift branch
  it is \<open>spec_high_drift\<close>: a normal proposal centred at \<open>u_m + u_th\<^sup>2 / u_m\<close> with
  standard deviation \<open>u_th\<close>, drawn again while negative, accepted when a uniform draw
  is below \<open>(u / u_m) * exp (1 - u / u_m)\<close>. Each loop repeats until it accepts and
  returns the accepted value with the engine state it has reached.
\<close>

theorem flux_kernel_regimes:
  "0 < u_th \<Longrightarrow>
     generateGaussianFluxDist R u_m u_th engine =
       (if u_m < 0.6 * u_th then spec_low_drift R u_m u_th engine
        else spec_high_drift R u_m u_th engine)"
  using flux_low_eq[of u_th R u_m engine] flux_high_eq[of R u_m u_th engine]
  by (simp add: generateGaussianFluxDist_def Let_def)

text \<open>
  A run of each branch on the stand-in engine. With \<open>u_m = 0\<close>, \<open>u_th = 1\<close> and every
  uniform draw \<open>1/2\<close> the low-drift loop accepts its first proposal \<open>sqrt (2 * ln 2)\<close>.
  With \<open>u_m = 1\<close>, \<open>u_th = 1\<close> and every normal draw one deviation below its mean, the
  high-drift loop proposes 1 and accepts it.
\<close>

theorem flux_kernel_regimes_witness:
  "(0::real) < 1
   \<and> generateGaussianFluxDist (fixed_engine (1 / 2) 1) 0 1 0
       = spec_low_drift (fixed_engine (1 / 2) 1) 0 1 0
   \<and> generateGaussianFluxDist (fixed_engine (1 / 2) 1) 0 1 0 = Some (sqrt (2 * ln 2), 2)
   \<and> generateGaussianFluxDist (fixed_engine (1 / 2) (- 1)) 1 1 0
       = spec_high_drift (fixed_engine (1 / 2) (- 1)) 1 1 0
   \<and> generateGaussianFluxDist (fixed_engine (1 / 2) (- 1)) 1 1 0 = Some (1, 2)"
  using flux_kernel_regimes [of 1 "fixed_engine (1 / 2) 1" 0 0]
    flux_kernel_regimes [of 1 "fixed_engine (1 / 2) (- 1)" 1 0]
  apply simp
  apply (subst spec_low_drift.simps)
  apply (subst spec_high_drift.simps)
  apply (subst spec_positive_normal.simps)
  apply (simp add: fixed_engine_def ln_div)
  done

subsection \<open>The Gaussian-flux sampler\<close>

text \<open>
  C6. With the flux-normal axis 0, 1 or 2, constructing a Gaussian-flux sampler aborts
  if and only if the central momentum along that axis is strictly negative; the abort
  is the outcome of the constructor, so no sampler is handed out to draw from. In
  particular the on-axis central momentum \<open>-1.0\<close> along axis 0 aborts.
\<close>

theorem gaussianflux_construction_aborts_iff:
  "a_flux_normal_axis \<in> {0, 1, 2} \<Longrightarrow>
     (is_Abort (InjectorMomentumGaussianFlux_new a_ux_m a_uy_m a_uz_m a_ux_th a_uy_th a_uz_th
                  a_flux_normal_axis a_flux_direction)
        \<longleftrightarrow> [a_ux_m, a_uy_m, a_uz_m] ! nat a_flux_normal_axis < 0)
     \<and> is_Abort (InjectorMomentumGaussianFlux_new (- 1.0) a_uy_m a_uz_m a_ux_th a_uy_th a_uz_th
                  0 a_flux_direction)"
  by (auto simp: InjectorMomentumGaussianFlux_new_def WARPX_ALWAYS_ASSERT_WITH_MESSAGE_def Let_def)

text \<open>Central momentum \<open>-1\<close> on axis 0 aborts; \<open>0\<close> and \<open>2\<close> construct the sampler.\<close>

theorem gaussianflux_construction_aborts_iff_witness:
  "is_Abort (InjectorMomentumGaussianFlux_new (- 1) 0 0 1 1 1 0 1)
   \<and> \<not> is_Abort (InjectorMomentumGaussianFlux_new 0 0 0 1 1 1 0 1)
   \<and> \<not> is_Abort (InjectorMomentumGaussianFlux_new 2 0 0 1 1 1 0 1)
   \<and> is_Abort (InjectorMomentumGaussianFlux_new 5 0 (- 1) 1 1 1 2 1)"
  using gaussianflux_construction_aborts_iff [of 0 "- 1" 0 0 1 1 1 1]
    gaussianflux_construction_aborts_iff [of 0 0 0 0 1 1 1 1]
    gaussianflux_construction_aborts_iff [of 0 2 0 0 1 1 1 1]
    gaussianflux_construction_aborts_iff [of 2 5 0 "- 1" 1 1 1 1]
  by simp

text \<open>
  C7. The mean query of the Gaussian-flux sampler returns the three configured central
  values unmodified, whatever the flux direction, the flux axis and the spreads are.
  A sample is different: with a negative flux direction its on-axis component is the
  negated output of the flux kernel.
\<close>

theorem gaussianflux_bulk_is_nominal:
  "InjectorMomentumGaussianFlux_getBulkMomentum g x y z = XDim3 (m_ux_m g) (m_uy_m g) (m_uz_m g)
   \<and> InjectorMomentumGaussianFlux_getBulkMomentum
        (g\<lparr>m_flux_direction := d, m_flux_normal_axis := a,
           m_ux_th := sx, m_uy_th := sy, m_uz_th := sz\<rparr>) x y z
       = InjectorMomentumGaussianFlux_getBulkMomentum g x y z
   \<and> (m_flux_direction g < 0 \<and> m_flux_normal_axis g \<in> {0, 1, 2}
        \<and> generateGaussianFluxDist R ([m_ux_m g, m_uy_m g, m_uz_m g] ! nat (m_flux_normal_axis g))
             ([m_ux_th g, m_uy_th g, m_uz_th g] ! nat (m_flux_normal_axis g)) engine
            = Some (u0, engine0)
      \<longrightarrow> (\<exists>v engine'.
             InjectorMomentumGaussianFlux_getMomentum R g x y z engine = Returns (Some (v, engine'))
             \<and> component v (nat (m_flux_normal_axis g)) = - u0))"
  by (auto simp: InjectorMomentumGaussianFlux_getBulkMomentum_def
      InjectorMomentumGaussianFlux_getMomentum_def component_def Let_def split: prod.splits)

text \<open>
  Central momentum 2 along axis 0, no spread on that axis, flux direction \<open>-1\<close>: the mean
  is \<open>(2, 0, 0)\<close> and the sample's on-axis component is \<open>-2\<close>.
\<close>

theorem gaussianflux_bulk_is_nominal_witness:
  "InjectorMomentumGaussianFlux_getBulkMomentum
     \<lparr>m_ux_m = 2, m_uy_m = 0, m_uz_m = 0, m_ux_th = 0, m_uy_th = 1, m_uz_th = 1,
      m_flux_normal_axis = 0, m_flux_direction = - 1\<rparr> 0 0 0 = XDim3 2 0 0
   \<and> (\<exists>v engine'.
        InjectorMomentumGaussianFlux_getMomentum (fixed_engine (1 / 2) 1)
          \<lparr>m_ux_m = 2, m_uy_m = 0, m_uz_m = 0, m_ux_th = 0, m_uy_th = 1, m_uz_th = 1,
           m_flux_normal_axis = 0, m_flux_direction = - 1\<rparr> 0 0 0 0 = Returns (Some (v, engine'))
        \<and> component v 0 = - 2)"
  using gaussianflux_bulk_is_nominal
    [of "\<lparr>m_ux_m = 2, m_uy_m = 0, m_uz_m = 0, m_ux_th = 0, m_uy_th = 1, m_uz_th = 1,
          m_flux_normal_axis = 0, m_flux_direction = - 1\<rparr>" 0 0 0 _ _ _ _ _
        "fixed_engine (1 / 2) 1" 0 2 0]
  by (simp add: generateGaussianFluxDist_def)

subsection \<open>The relativistic samplers\<close>

text \<open>The loop of the Juttner sampler, entered with zeros, is Sobol's loop of the specification.\<close>

lemma juttner_loop_exit:
  "\<not> u - g \<le> x1 \<Longrightarrow> InjectorMomentumJuttner_loop R \<theta> u g x1 e = Some (u, g, x1, e)"
  by (subst InjectorMomentumJuttner_loop.simps) simp

lemma juttner_code_spec:
  assumes "InjectorMomentumJuttner_loop R \<theta> u g x1 e = Some r"
  shows "(u - g \<le> x1 \<longrightarrow> spec_sobol_speed R \<theta> e = Some (fst r, fst (snd r), snd (snd (snd r))))
         \<and> (\<not> u - g \<le> x1 \<longrightarrow> r = (u, g, x1, e))"
  apply (rule InjectorMomentumJuttner_loop.raw_induct[where P = "\<lambda>R \<theta> u g x1 e r.
           (u - g \<le> x1 \<longrightarrow> spec_sobol_speed R \<theta> e = Some (fst r, fst (snd r), snd (snd (snd r))))
           \<and> (\<not> u - g \<le> x1 \<longrightarrow> r = (u, g, x1, e))", OF _ assms])
  apply (subst spec_sobol_speed.simps)
  apply (fastforce simp: Let_def power2_eq_square split: prod.splits if_splits)
  done

lemma juttner_spec_code:
  assumes "spec_sobol_speed R \<theta> e = Some r"
  shows "\<forall>u g x1. u - g \<le> x1 \<longrightarrow>
           (\<exists>x1'. InjectorMomentumJuttner_loop R \<theta> u g x1 e
                    = Some (fst r, fst (snd r), x1', snd (snd r)))"
  apply (rule spec_sobol_speed.raw_induct[where P = "\<lambda>R \<theta> e r. \<forall>u g x1. u - g \<le> x1 \<longrightarrow>
           (\<exists>x1'. InjectorMomentumJuttner_loop R \<theta> u g x1 e
                    = Some (fst r, fst (snd r), x1', snd (snd r)))", OF _ assms])
  apply (intro allI impI)
  apply (subst InjectorMomentumJuttner_loop.simps)
  apply (auto simp: Let_def power2_eq_square juttner_loop_exit split: prod.splits if_splits)
  done

lemma juttner_loop_eq:
  "map_option (\<lambda>(u, g, x1, e). (u, g, e)) (InjectorMomentumJuttner_loop R \<theta> 0 0 0 e)
     = spec_sobol_speed R \<theta> e"
proof (cases "InjectorMomentumJuttner_loop R \<theta> 0 0 0 e")
  case None
  show ?thesis
  proof (cases "spec_sobol_speed R \<theta> e")
    case None
    with \<open>InjectorMomentumJuttner_loop R \<theta> 0 0 0 e = None\<close> show ?thesis by simp
  next
    case (Some r)
    from juttner_spec_code[OF Some] have
      "\<exists>x1'. InjectorMomentumJuttner_loop R \<theta> 0 0 0 e = Some (fst r, fst (snd r), x1', snd (snd r))"
      by simp
    with \<open>InjectorMomentumJuttner_loop R \<theta> 0 0 0 e = None\<close> show ?thesis by simp
  qed
next
  case (Some r)
  then show ?thesis using juttner_code_spec[of R \<theta> 0 0 0 e r] by (simp split: prod.splits)
qed

lemma juttner_local_eq:
  assumes "dir < 3"
  shows "InjectorMomentumJuttner_local R \<theta> dir e = spec_juttner_local R \<theta> dir e"
proof -
  have d: "dir = 0 \<or> dir = 1 \<or> dir = 2" using assms by arith
  show ?thesis
    unfolding InjectorMomentumJuttner_local_def spec_juttner_local_def
      juttner_loop_eq[symmetric]
    using d
    by (auto simp: Let_def split: option.splits prod.splits)
qed

text \<open>
  C2. For a temperature \<open>\<theta> \<ge> 0.1\<close> and \<open>|\<beta>| < 1\<close> (and a boost axis 0, 1 or 2) the
  Juttner sampler does not abort, and its sample is the local-frame stage as the
  specification words it, \<open>spec_juttner_local\<close>, followed by the flip and the boost:
  the speed comes from Sobol's loop (\<open>u_axis = - \<theta> * ln (\<xi>1 * \<xi>2 * \<xi>3)\<close>,
  \<open>\<gamma> = sqrt (1 + u_axis\<^sup>2)\<close>, \<open>x1 = \<theta> * ln \<xi>4\<close>, again while \<open>u_axis - \<gamma> \<le> x1\<close>), the
  transverse components are \<open>2 * u_axis * sqrt (x1 * (1 - x1))\<close> times the sine and
  the cosine of \<open>2 * pi * x2\<close> for two fresh uniform draws, and the boost-axis component
  is \<open>u_axis * (2 * x1 - 1)\<close>.
\<close>

theorem juttner_local_stage:
  assumes "0.1 \<le> InjectorMomentumJuttner.temperature J x y z"
    and "\<bar>velocity_at (InjectorMomentumJuttner.velocity J) x y z\<bar> < 1"
    and "direction (InjectorMomentumJuttner.velocity J) < 3"
  shows "InjectorMomentumJuttner_getMomentum R J x y z engine =
           (let \<theta> = InjectorMomentumJuttner.temperature J x y z;
                \<beta> = velocity_at (InjectorMomentumJuttner.velocity J) x y z;
                dir = direction (InjectorMomentumJuttner.velocity J)
            in Returns
                (case spec_juttner_local R \<theta> dir engine of
                   None \<Rightarrow> None
                 | Some (u, \<gamma>, engine1) \<Rightarrow>
                     Some (InjectorMomentumJuttner_transform R \<beta> dir u \<gamma> engine1)))"
  using assms
  by (auto simp: InjectorMomentumJuttner_getMomentum_def abort_if_def Let_def juttner_local_eq)

lemma sqrt_10_less_4: "\<not> 4 \<le> sqrt 10"
proof -
  have "sqrt 10 < 4" by (rule real_less_lsqrt) simp_all
  then show ?thesis by simp
qed

text \<open>
  A run on the stand-in engine with every uniform draw \<open>exp (-1)\<close>, at temperature 1:
  the loop draws \<open>u_axis = 3\<close>, \<open>\<gamma> = sqrt 10\<close> and \<open>x1 = -1\<close>, accepts them, and the
  sample is returned after seven draws.
\<close>

theorem juttner_local_stage_witness:
  "(0.1::real) \<le> 1 \<and> \<bar>0::real\<bar> < 1 \<and> (0::nat) < 3
   \<and> (\<exists>v. InjectorMomentumJuttner_getMomentum (fixed_engine (exp (- 1)) 0)
             \<lparr>velocity = \<lparr>velocity_at = (\<lambda>x y z. 0), direction = 0\<rparr>, temperature = (\<lambda>x y z. 1)\<rparr>
             0 0 0 0 = Returns (Some (v, 7)))"
  using juttner_local_stage
    [of "\<lparr>velocity = \<lparr>velocity_at = (\<lambda>x y z. 0), direction = 0\<rparr>, temperature = (\<lambda>x y z. 1)\<rparr>"
        0 0 0 "fixed_engine (exp (- 1)) 0" 0]
  apply (simp add: spec_juttner_local_def)
  apply (subst spec_sobol_speed.simps)
  apply (simp add: fixed_engine_def InjectorMomentumJuttner_transform_def Let_def mult_exp_exp
      sqrt_10_less_4)
  done

text \<open>
  C3. The sample operation of the Boltzmann sampler aborts exactly when the temperature
  evaluator yields \<open>\<theta> < 0\<close> or the velocity evaluator yields \<open>|\<beta>| \<ge> 1\<close>; that of the
  Juttner sampler aborts exactly when \<open>\<theta> < 0.1\<close> or \<open>|\<beta>| \<ge> 1\<close>. In particular the
  Boltzmann sampler aborts wherever the temperature evaluator returns \<open>-1.0\<close>.
\<close>

theorem sample_aborts_iff:
  "(is_Abort (InjectorMomentumBoltzmann_getMomentum R B x y z engine) \<longleftrightarrow>
      InjectorMomentumBoltzmann.temperature B x y z < 0
      \<or> 1 \<le> \<bar>velocity_at (InjectorMomentumBoltzmann.velocity B) x y z\<bar>)
   \<and> (is_Abort (InjectorMomentumJuttner_getMomentum R J x y z engine) \<longleftrightarrow>
      InjectorMomentumJuttner.temperature J x y z < 0.1
      \<or> 1 \<le> \<bar>velocity_at (InjectorMomentumJuttner.velocity J) x y z\<bar>)
   \<and> is_Abort (InjectorMomentumBoltzmann_getMomentum R
        \<lparr>InjectorMomentumBoltzmann.velocity = v,
         InjectorMomentumBoltzmann.temperature = (\<lambda>x y z. - 1.0)\<rparr> x y z engine)"
  by (auto simp: InjectorMomentumBoltzmann_getMomentum_def InjectorMomentumJuttner_getMomentum_def
      abort_if_def Let_def split: prod.splits)

text \<open>
  At temperature 1 and velocity 1/2 neither sampler aborts; the Juttner sampler aborts
  at temperature 0.05, and the Boltzmann sampler at temperature \<open>-1\<close> and at velocity 1.
\<close>

theorem sample_aborts_iff_witness:
  "\<not> is_Abort (InjectorMomentumBoltzmann_getMomentum (fixed_engine (1 / 2) 1)
        \<lparr>InjectorMomentumBoltzmann.velocity = \<lparr>velocity_at = (\<lambda>x y z. 1 / 2), direction = 0\<rparr>,
         InjectorMomentumBoltzmann.temperature = (\<lambda>x y z. 1)\<rparr> 0 0 0 0)
   \<and> is_Abort (InjectorMomentumBoltzmann_getMomentum (fixed_engine (1 / 2) 1)
        \<lparr>InjectorMomentumBoltzmann.velocity = \<lparr>velocity_at = (\<lambda>x y z. 1), direction = 0\<rparr>,
         InjectorMomentumBoltzmann.temperature = (\<lambda>x y z. 1)\<rparr> 0 0 0 0)
   \<and> is_Abort (InjectorMomentumBoltzmann_getMomentum (fixed_engine (1 / 2) 1)
        \<lparr>InjectorMomentumBoltzmann.velocity = \<lparr>velocity_at = (\<lambda>x y z. 1 / 2), direction = 0\<rparr>,
         InjectorMomentumBoltzmann.temperature = (\<lambda>x y z. - 1)\<rparr> 0 0 0 0)
   \<and> \<not> is_Abort (InjectorMomentumJuttner_getMomentum (fixed_engine (1 / 2) 1)
        \<lparr>velocity = \<lparr>velocity_at = (\<lambda>x y z. 1 / 2), direction = 0\<rparr>,
         temperature = (\<lambda>x y z. 1)\<rparr> 0 0 0 0)
   \<and> is_Abort (InjectorMomentumJuttner_getMomentum (fixed_engine (1 / 2) 1)
        \<lparr>velocity = \<lparr>velocity_at = (\<lambda>x y z. 1 / 2), direction = 0\<rparr>,
         temperature = (\<lambda>x y z. 0.05)\<rparr> 0 0 0 0)"
  using sample_aborts_iff
      [of "fixed_engine (1 / 2) 1"
          "\<lparr>InjectorMomentumBoltzmann.velocity = \<lparr>velocity_at = (\<lambda>x y z. 1 / 2), direction = 0\<rparr>,
            InjectorMomentumBoltzmann.temperature = (\<lambda>x y z. 1)\<rparr>" 0 0 0 0
          "\<lparr>velocity = \<lparr>velocity_at = (\<lambda>x y z. 1 / 2), direction = 0\<rparr>,
            temperature = (\<lambda>x y z. 1)\<rparr>"
          "\<lparr>velocity_at = (\<lambda>x y z. 1 / 2), direction = 0\<rparr>"]
    sample_aborts_iff
      [of "fixed_engine (1 / 2) 1"
          "\<lparr>InjectorMomentumBoltzmann.velocity = \<lparr>velocity_at = (\<lambda>x y z. 1), direction = 0\<rparr>,
            InjectorMomentumBoltzmann.temperature = (\<lambda>x y z. 1)\<rparr>" 0 0 0 0
          "\<lparr>velocity = \<lparr>velocity_at = (\<lambda>x y z. 1 / 2), direction = 0\<rparr>,
            temperature = (\<lambda>x y z. 0.05)\<rparr>"
          "\<lparr>velocity_at = (\<lambda>x y z. 1 / 2), direction = 0\<rparr>"]
  by simp

text \<open>
  C4. With \<open>\<beta> = 0\<close>, and uniform draws that are not negative, the flip and the Lorentz
  boost of both samplers leave every locally sampled vector as it is: the flip is not
  triggered, since \<open>- \<beta> * u_axis / \<gamma> = 0\<close> does not exceed the draw, and the boost
  \<open>(u_axis + \<gamma> * \<beta>) / sqrt (1 - \<beta>\<^sup>2)\<close> returns \<open>u_axis\<close>. So the sample of either
  sampler is its local-frame sample, the boost-axis component included, with the engine
  one uniform draw further. The functions have no branch on \<open>\<beta> = 0\<close>: this is the
  general formula at \<open>\<beta> = 0\<close>.
\<close>

theorem zero_beta_transform_identity:
  assumes "\<forall>e. 0 \<le> fst (Random R e)"
    and "velocity_at (InjectorMomentumBoltzmann.velocity B) x y z = 0"
    and "0 \<le> InjectorMomentumBoltzmann.temperature B x y z"
    and "velocity_at (InjectorMomentumJuttner.velocity J) x y z = 0"
    and "0.1 \<le> InjectorMomentumJuttner.temperature J x y z"
  shows "InjectorMomentumBoltzmann_transform R 0 dir u gamma engine
           = (XDim3 (u ! 0) (u ! 1) (u ! 2), snd (Random R engine))
       \<and> InjectorMomentumJuttner_transform R 0 dir u gamma engine
           = (XDim3 (u ! 0) (u ! 1) (u ! 2), snd (Random R engine))
       \<and> InjectorMomentumBoltzmann_getMomentum R B x y z engine =
           (let (u, gamma, engine1) =
                  InjectorMomentumBoltzmann_local R (InjectorMomentumBoltzmann.temperature B x y z)
                    (direction (InjectorMomentumBoltzmann.velocity B)) engine
            in Returns (Some (XDim3 (u ! 0) (u ! 1) (u ! 2), snd (Random R engine1))))
       \<and> InjectorMomentumJuttner_getMomentum R J x y z engine =
           Returns (map_option
             (\<lambda>(u, gamma, engine1). (XDim3 (u ! 0) (u ! 1) (u ! 2), snd (Random R engine1)))
             (InjectorMomentumJuttner_local R (InjectorMomentumJuttner.temperature J x y z)
                (direction (InjectorMomentumJuttner.velocity J)) engine))"
proof -
  have nn: "\<And>e r e'. Random R e = (r, e') \<Longrightarrow> \<not> 0 > r"
    using assms(1) by (metis fst_conv not_less)
  have tb: "\<And>dir u gamma engine. InjectorMomentumBoltzmann_transform R 0 dir u gamma engine
           = (XDim3 (u ! 0) (u ! 1) (u ! 2), snd (Random R engine))"
    by (auto simp: InjectorMomentumBoltzmann_transform_def Let_def split: prod.splits dest: nn)
  have tj: "\<And>dir u gamma engine. InjectorMomentumJuttner_transform R 0 dir u gamma engine
           = (XDim3 (u ! 0) (u ! 1) (u ! 2), snd (Random R engine))"
    by (auto simp: InjectorMomentumJuttner_transform_def Let_def split: prod.splits dest: nn)
  have gb: "InjectorMomentumBoltzmann_getMomentum R B x y z engine =
           (let (u, gamma, engine1) =
                  InjectorMomentumBoltzmann_local R (InjectorMomentumBoltzmann.temperature B x y z)
                    (direction (InjectorMomentumBoltzmann.velocity B)) engine
            in Returns (Some (XDim3 (u ! 0) (u ! 1) (u ! 2), snd (Random R engine1))))"
    using assms(2,3)
    by (simp add: InjectorMomentumBoltzmann_getMomentum_def abort_if_def Let_def tb
        split: prod.splits)
  have gj: "InjectorMomentumJuttner_getMomentum R J x y z engine =
           Returns (map_option
             (\<lambda>(u, gamma, engine1). (XDim3 (u ! 0) (u ! 1) (u ! 2), snd (Random R engine1)))
             (InjectorMomentumJuttner_local R (InjectorMomentumJuttner.temperature J x y z)
                (direction (InjectorMomentumJuttner.velocity J)) engine))"
    using assms(4,5)
    by (simp add: InjectorMomentumJuttner_getMomentum_def abort_if_def Let_def tj
        split: prod.splits option.splits)
  show ?thesis using tb tj gb gj by blast
qed

text \<open>
  With every uniform draw \<open>1/2\<close> and every normal draw \<open>stddev\<close> above its mean, the
  Boltzmann sampler at temperature 4 and \<open>\<beta> = 0\<close> returns the three local draws
  \<open>(2, 2, 2)\<close>; a pre-transform vector \<open>[5, 6, 7]\<close> comes back as \<open>(5, 6, 7)\<close>.
\<close>

theorem zero_beta_transform_identity_witness:
  "(\<forall>e. 0 \<le> fst (Random (fixed_engine (1 / 2) 1) e))
   \<and> InjectorMomentumBoltzmann_transform (fixed_engine (1 / 2) 1) 0 1 [5, 6, 7] 8 0
       = (XDim3 5 6 7, 1)
   \<and> InjectorMomentumJuttner_transform (fixed_engine (1 / 2) 1) 0 1 [5, 6, 7] 8 0
       = (XDim3 5 6 7, 1)
   \<and> InjectorMomentumBoltzmann_getMomentum (fixed_engine (1 / 2) 1)
        \<lparr>InjectorMomentumBoltzmann.velocity = \<lparr>velocity_at = (\<lambda>x y z. 0), direction = 1\<rparr>,
         InjectorMomentumBoltzmann.temperature = (\<lambda>x y z. 4)\<rparr> 0 0 0 0
       = Returns (Some (XDim3 2 2 2, 4))"
proof -
  have e: "\<forall>e. 0 \<le> fst (Random (fixed_engine (1 / 2) 1) e)"
    by (simp add: fixed_engine_def)
  have s: "sqrt 4 = 2" by (rule real_sqrt_unique) simp_all
  show ?thesis
    using e zero_beta_transform_identity
      [of "fixed_engine (1 / 2) 1"
          "\<lparr>InjectorMomentumBoltzmann.velocity = \<lparr>velocity_at = (\<lambda>x y z. 0), direction = 1\<rparr>,
            InjectorMomentumBoltzmann.temperature = (\<lambda>x y z. 4)\<rparr>" 0 0 0
          "\<lparr>velocity = \<lparr>velocity_at = (\<lambda>x y z. 0), direction = 1\<rparr>,
            temperature = (\<lambda>x y z. 1)\<rparr>" 1 "[5, 6, 7]" 8 0]
    by (simp add: InjectorMomentumBoltzmann_local_def fixed_engine_def Let_def s)
qed

text \<open>
  C8. Where the velocity evaluator yields \<open>\<beta>\<close> with \<open>|\<beta>| < 1\<close> (and the boost axis is
  0, 1 or 2), the mean query of the Boltzmann sampler and that of the Juttner sampler
  return a vector whose boost-axis component is \<open>\<beta> / sqrt (1 - \<beta>\<^sup>2)\<close> and whose
  two transverse components are zero, whatever the temperature evaluator is.
\<close>

theorem relativistic_bulk_momentum:
  assumes "\<bar>velocity_at (InjectorMomentumBoltzmann.velocity B) x y z\<bar> < 1"
    and "direction (InjectorMomentumBoltzmann.velocity B) < 3"
    and "\<bar>velocity_at (InjectorMomentumJuttner.velocity J) x y z\<bar> < 1"
    and "direction (InjectorMomentumJuttner.velocity J) < 3"
  shows "(let \<beta> = velocity_at (InjectorMomentumBoltzmann.velocity B) x y z;
              dir = direction (InjectorMomentumBoltzmann.velocity B);
              m = InjectorMomentumBoltzmann_getBulkMomentum B x y z
          in component m dir = \<beta> / sqrt (1 - \<beta>\<^sup>2)
             \<and> component m ((dir + 1) mod 3) = 0 \<and> component m ((dir + 2) mod 3) = 0
             \<and> InjectorMomentumBoltzmann_getBulkMomentum
                  (B\<lparr>InjectorMomentumBoltzmann.temperature := t\<rparr>) x y z = m)
       \<and> (let \<beta> = velocity_at (InjectorMomentumJuttner.velocity J) x y z;
              dir = direction (InjectorMomentumJuttner.velocity J);
              m = InjectorMomentumJuttner_getBulkMomentum J x y z
          in component m dir = \<beta> / sqrt (1 - \<beta>\<^sup>2)
             \<and> component m ((dir + 1) mod 3) = 0 \<and> component m ((dir + 2) mod 3) = 0
             \<and> InjectorMomentumJuttner_getBulkMomentum
                  (J\<lparr>InjectorMomentumJuttner.temperature := t'\<rparr>) x y z = m)"
proof -
  have d: "\<And>d::nat. d < 3 \<Longrightarrow> d = 0 \<or> d = 1 \<or> d = 2" by arith
  show ?thesis
    using d[OF assms(2)] d[OF assms(4)]
    by (auto simp: InjectorMomentumBoltzmann_getBulkMomentum_def
        InjectorMomentumJuttner_getBulkMomentum_def Let_def component_def power2_eq_square)
qed

text \<open>With \<open>\<beta> = 3/5\<close> along axis 1 the mean is \<open>(0, 3/4, 0)\<close>.\<close>

theorem relativistic_bulk_momentum_witness:
  "\<bar>3 / 5 :: real\<bar> < 1 \<and> (1::nat) < 3
   \<and> InjectorMomentumBoltzmann_getBulkMomentum
        \<lparr>InjectorMomentumBoltzmann.velocity = \<lparr>velocity_at = (\<lambda>x y z. 3 / 5), direction = 1\<rparr>,
         InjectorMomentumBoltzmann.temperature = (\<lambda>x y z. 1)\<rparr> 0 0 0 = XDim3 0 (3 / 4) 0
   \<and> InjectorMomentumJuttner_getBulkMomentum
        \<lparr>velocity = \<lparr>velocity_at = (\<lambda>x y z. 3 / 5), direction = 1\<rparr>,
         temperature = (\<lambda>x y z. 1)\<rparr> 0 0 0 = XDim3 0 (3 / 4) 0"
proof -
  have s: "sqrt (1 - (3 / 5)\<^sup>2) = 4 / 5" by (rule real_sqrt_unique) (simp_all add: power2_eq_square)
  show ?thesis
    using relativistic_bulk_momentum
      [of "\<lparr>InjectorMomentumBoltzmann.velocity = \<lparr>velocity_at = (\<lambda>x y z. 3 / 5), direction = 1\<rparr>,
            InjectorMomentumBoltzmann.temperature = (\<lambda>x y z. 1)\<rparr>" 0 0 0
          "\<lparr>velocity = \<lparr>velocity_at = (\<lambda>x y z. 3 / 5), direction = 1\<rparr>,
            temperature = (\<lambda>x y z. 1)\<rparr>" "\<lambda>x y z. 1" "\<lambda>x y z. 1"]
    apply (simp add: Let_def component_def s)
    apply (cases "InjectorMomentumBoltzmann_getBulkMomentum
        \<lparr>InjectorMomentumBoltzmann.velocity = \<lparr>velocity_at = (\<lambda>x y z. 3 / 5), direction = 1\<rparr>,
         InjectorMomentumBoltzmann.temperature = (\<lambda>x y z. 1)\<rparr> 0 0 0")
    apply (cases "InjectorMomentumJuttner_getBulkMomentum
        \<lparr>velocity = \<lparr>velocity_at = (\<lambda>x y z. 3 / 5), direction = 1\<rparr>,
         temperature = (\<lambda>x y z. 1)\<rparr> 0 0 0")
    apply simp
    done
qed

subsection \<open>The mean queries outside the valid range\<close>

text \<open>
  Where \<open>|beta| < 1\<close> the mean queries on the values with infinities are the mean
  queries on the reals: the two embeddings agree wherever the result is finite.
\<close>

lemma abs_ge_1_square: "1 \<le> \<bar>b\<bar> \<Longrightarrow> 1 \<le> b * (b::real)"
proof -
  assume "1 \<le> \<bar>b\<bar>"
  then have "1 * 1 \<le> \<bar>b\<bar> * \<bar>b\<bar>" by (intro mult_mono) simp_all
  then show ?thesis by (simp add: abs_mult_self_eq)
qed

lemma abs_less_1_square: "\<bar>b\<bar> < 1 \<Longrightarrow> b * (b::real) < 1"
proof -
  assume a: "\<bar>b\<bar> < 1"
  then have "\<bar>b\<bar> * \<bar>b\<bar> < 1 * 1" by (intro mult_strict_mono') simp_all
  then show ?thesis by (simp add: abs_mult_self_eq)
qed

lemma finite_update_nth:
  "i < 3 \<Longrightarrow> [Fin 0, Fin 0, Fin 0][d := Fin v] ! i = Fin ([0, 0, 0][d := v] ! i)"
proof -
  assume i: "i < 3"
  have e: "[Fin 0, Fin 0, Fin 0][d := Fin v] = map Fin ([0, 0, 0][d := v])"
    by (simp only: map_update list.map)
  have "length ([0::real, 0, 0][d := v]) = 3"
    by (simp only: length_list_update) simp
  with i have l: "i < length ([0::real, 0, 0][d := v])" by simp
  show ?thesis unfolding e using l by (rule nth_map)
qed

lemma gamma_beta_finite:
  assumes "\<bar>b\<bar> < 1"
  shows "ieee_times
           (ieee_divide (Fin 1) (ieee_sqrt (ieee_minus (Fin 1) (ieee_times (Fin b) (Fin b)))))
           (Fin b) = Fin (1 / sqrt (1 - b * b) * b)"
proof -
  have "b * b < 1" using assms by (rule abs_less_1_square)
  then show ?thesis by simp
qed

lemma bulk_momentum_ieee_finite:
  "\<bar>velocity_at (InjectorMomentumBoltzmann.velocity B) x y z\<bar> < 1 \<Longrightarrow>
     InjectorMomentumBoltzmann_getBulkMomentum_ieee B x y z
       = XDim3_finite (InjectorMomentumBoltzmann_getBulkMomentum B x y z)"
  "\<bar>velocity_at (InjectorMomentumJuttner.velocity J) x y z\<bar> < 1 \<Longrightarrow>
     InjectorMomentumJuttner_getBulkMomentum_ieee J x y z
       = XDim3_finite (InjectorMomentumJuttner_getBulkMomentum J x y z)"
  by (simp_all only: InjectorMomentumBoltzmann_getBulkMomentum_ieee_def
      InjectorMomentumBoltzmann_getBulkMomentum_def
      InjectorMomentumJuttner_getBulkMomentum_ieee_def
      InjectorMomentumJuttner_getBulkMomentum_def XDim3_finite_def Let_def
      gamma_beta_finite finite_update_nth XDim3.sel)

text \<open>What \<open>gamma * beta\<close> is where \<open>|beta| \<ge> 1\<close>: an infinity or NaN.\<close>

lemma gamma_beta_not_finite:
  assumes "1 \<le> \<bar>b\<bar>"
  shows "\<not> is_Fin (ieee_times
           (ieee_divide (Fin 1) (ieee_sqrt (ieee_minus (Fin 1) (ieee_times (Fin b) (Fin b)))))
           (Fin b))"
proof -
  have sq: "1 \<le> b * b" using assms by (rule abs_ge_1_square)
  have nz: "b \<noteq> 0" using assms by auto
  show ?thesis
  proof (cases "b * b = 1")
    case True
    then show ?thesis using nz by simp
  next
    case False
    with sq have "1 - b * b < 0" by simp
    then show ?thesis by simp
  qed
qed

text \<open>
  C10. The mean query of the Boltzmann and of the Juttner sampler makes none of the
  checks of the sample operation. It has no abort in it: behind the selector its outcome
  is a return for every sampler and position, and it is the same whatever the temperature
  evaluator is, so the temperature is never looked at. Where the velocity evaluator
  yields \<open>beta\<close> with \<open>|beta| \<ge> 1\<close> (and the boost axis is 0, 1 or 2) the sample
  operation aborts, while the mean query evaluates \<open>1 / sqrt (1 - beta * beta)\<close> all
  the same and its boost-axis component is not finite: an infinity or NaN.
\<close>

theorem bulk_momentum_unvalidated:
  "is_Returns (InjectorMomentum_getBulkMomentum
       \<lparr>type = Type_boltzmann, object = Active_boltzmann B\<rparr> x y z)
   \<and> is_Returns (InjectorMomentum_getBulkMomentum
       \<lparr>type = Type_juttner, object = Active_juttner J\<rparr> x y z)
   \<and> InjectorMomentumBoltzmann_getBulkMomentum
        (B\<lparr>InjectorMomentumBoltzmann.temperature := t\<rparr>) x y z
       = InjectorMomentumBoltzmann_getBulkMomentum B x y z
   \<and> InjectorMomentumJuttner_getBulkMomentum
        (J\<lparr>InjectorMomentumJuttner.temperature := t'\<rparr>) x y z
       = InjectorMomentumJuttner_getBulkMomentum J x y z
   \<and> InjectorMomentumBoltzmann_getBulkMomentum_ieee
        (B\<lparr>InjectorMomentumBoltzmann.temperature := t\<rparr>) x y z
       = InjectorMomentumBoltzmann_getBulkMomentum_ieee B x y z
   \<and> InjectorMomentumJuttner_getBulkMomentum_ieee
        (J\<lparr>InjectorMomentumJuttner.temperature := t'\<rparr>) x y z
       = InjectorMomentumJuttner_getBulkMomentum_ieee J x y z
   \<and> (1 \<le> \<bar>velocity_at (InjectorMomentumBoltzmann.velocity B) x y z\<bar>
        \<and> direction (InjectorMomentumBoltzmann.velocity B) < 3 \<longrightarrow>
      is_Abort (InjectorMomentumBoltzmann_getMomentum R B x y z engine)
      \<and> \<not> is_Fin (component_ieee (InjectorMomentumBoltzmann_getBulkMomentum_ieee B x y z)
                     (direction (InjectorMomentumBoltzmann.velocity B))))
   \<and> (1 \<le> \<bar>velocity_at (InjectorMomentumJuttner.velocity J) x y z\<bar>
        \<and> direction (InjectorMomentumJuttner.velocity J) < 3 \<longrightarrow>
      is_Abort (InjectorMomentumJuttner_getMomentum R J x y z engine)
      \<and> \<not> is_Fin (component_ieee (InjectorMomentumJuttner_getBulkMomentum_ieee J x y z)
                     (direction (InjectorMomentumJuttner.velocity J))))"
proof -
  have d: "\<And>d::nat. d < 3 \<Longrightarrow> d = 0 \<or> d = 1 \<or> d = 2" by arith
  have r: "is_Returns (InjectorMomentum_getBulkMomentum
             \<lparr>type = Type_boltzmann, object = Active_boltzmann B\<rparr> x y z)
           \<and> is_Returns (InjectorMomentum_getBulkMomentum
             \<lparr>type = Type_juttner, object = Active_juttner J\<rparr> x y z)"
    by (simp add: InjectorMomentum_getBulkMomentum_def Type_boltzmann_def Type_juttner_def
        Type_parser_def Type_gaussian_def Type_gaussianflux_def Type_uniform_def)
  have t: "InjectorMomentumBoltzmann_getBulkMomentum
             (B\<lparr>InjectorMomentumBoltzmann.temperature := t\<rparr>) x y z
            = InjectorMomentumBoltzmann_getBulkMomentum B x y z
          \<and> InjectorMomentumJuttner_getBulkMomentum
             (J\<lparr>InjectorMomentumJuttner.temperature := t'\<rparr>) x y z
            = InjectorMomentumJuttner_getBulkMomentum J x y z
          \<and> InjectorMomentumBoltzmann_getBulkMomentum_ieee
             (B\<lparr>InjectorMomentumBoltzmann.temperature := t\<rparr>) x y z
            = InjectorMomentumBoltzmann_getBulkMomentum_ieee B x y z
          \<and> InjectorMomentumJuttner_getBulkMomentum_ieee
             (J\<lparr>InjectorMomentumJuttner.temperature := t'\<rparr>) x y z
            = InjectorMomentumJuttner_getBulkMomentum_ieee J x y z"
    by (simp add: InjectorMomentumBoltzmann_getBulkMomentum_def
        InjectorMomentumJuttner_getBulkMomentum_def
        InjectorMomentumBoltzmann_getBulkMomentum_ieee_def
        InjectorMomentumJuttner_getBulkMomentum_ieee_def)
  have b: "1 \<le> \<bar>velocity_at (InjectorMomentumBoltzmann.velocity B) x y z\<bar>
        \<and> direction (InjectorMomentumBoltzmann.velocity B) < 3 \<longrightarrow>
      is_Abort (InjectorMomentumBoltzmann_getMomentum R B x y z engine)
      \<and> \<not> is_Fin (component_ieee (InjectorMomentumBoltzmann_getBulkMomentum_ieee B x y z)
                     (direction (InjectorMomentumBoltzmann.velocity B)))"
  proof (intro impI conjI, elim conjE)
    assume a: "1 \<le> \<bar>velocity_at (InjectorMomentumBoltzmann.velocity B) x y z\<bar>"
      and "direction (InjectorMomentumBoltzmann.velocity B) < 3"
    show "is_Abort (InjectorMomentumBoltzmann_getMomentum R B x y z engine)"
      using a by (auto simp: InjectorMomentumBoltzmann_getMomentum_def abort_if_def Let_def)
  next
    assume "1 \<le> \<bar>velocity_at (InjectorMomentumBoltzmann.velocity B) x y z\<bar>
        \<and> direction (InjectorMomentumBoltzmann.velocity B) < 3"
    then have a: "1 \<le> \<bar>velocity_at (InjectorMomentumBoltzmann.velocity B) x y z\<bar>"
      and dd: "direction (InjectorMomentumBoltzmann.velocity B) < 3" by simp_all
    show "\<not> is_Fin (component_ieee (InjectorMomentumBoltzmann_getBulkMomentum_ieee B x y z)
                     (direction (InjectorMomentumBoltzmann.velocity B)))"
      using d[OF dd] gamma_beta_not_finite[OF a]
      by (auto simp: InjectorMomentumBoltzmann_getBulkMomentum_ieee_def component_ieee_def Let_def)
  qed
  have j: "1 \<le> \<bar>velocity_at (InjectorMomentumJuttner.velocity J) x y z\<bar>
        \<and> direction (InjectorMomentumJuttner.velocity J) < 3 \<longrightarrow>
      is_Abort (InjectorMomentumJuttner_getMomentum R J x y z engine)
      \<and> \<not> is_Fin (component_ieee (InjectorMomentumJuttner_getBulkMomentum_ieee J x y z)
                     (direction (InjectorMomentumJuttner.velocity J)))"
  proof (intro impI conjI)
    assume "1 \<le> \<bar>velocity_at (InjectorMomentumJuttner.velocity J) x y z\<bar>
        \<and> direction (InjectorMomentumJuttner.velocity J) < 3"
    then show "is_Abort (InjectorMomentumJuttner_getMomentum R J x y z engine)"
      by (auto simp: InjectorMomentumJuttner_getMomentum_def abort_if_def Let_def)
  next
    assume "1 \<le> \<bar>velocity_at (InjectorMomentumJuttner.velocity J) x y z\<bar>
        \<and> direction (InjectorMomentumJuttner.velocity J) < 3"
    then have a: "1 \<le> \<bar>velocity_at (InjectorMomentumJuttner.velocity J) x y z\<bar>"
      and dd: "direction (InjectorMomentumJuttner.velocity J) < 3" by simp_all
    show "\<not> is_Fin (component_ieee (InjectorMomentumJuttner_getBulkMomentum_ieee J x y z)
                     (direction (InjectorMomentumJuttner.velocity J)))"
      using d[OF dd] gamma_beta_not_finite[OF a]
      by (auto simp: InjectorMomentumJuttner_getBulkMomentum_ieee_def component_ieee_def Let_def)
  qed
  show ?thesis using r t b j by blast
qed

text \<open>
  With \<open>beta = 1\<close> along axis 0 the Boltzmann sample aborts and the mean is
  \<open>(+infinity, 0, 0)\<close>; with \<open>beta = -2\<close> along axis 2 the Juttner sample aborts and the
  mean is \<open>(0, 0, NaN)\<close>.
\<close>

theorem bulk_momentum_unvalidated_witness:
  "(1::real) \<le> \<bar>1\<bar> \<and> (0::nat) < 3 \<and> (1::real) \<le> \<bar>- 2\<bar> \<and> (2::nat) < 3
   \<and> is_Abort (InjectorMomentumBoltzmann_getMomentum (fixed_engine (1 / 2) 1)
        \<lparr>InjectorMomentumBoltzmann.velocity = \<lparr>velocity_at = (\<lambda>x y z. 1), direction = 0\<rparr>,
         InjectorMomentumBoltzmann.temperature = (\<lambda>x y z. 1)\<rparr> 0 0 0 0)
   \<and> InjectorMomentumBoltzmann_getBulkMomentum_ieee
        \<lparr>InjectorMomentumBoltzmann.velocity = \<lparr>velocity_at = (\<lambda>x y z. 1), direction = 0\<rparr>,
         InjectorMomentumBoltzmann.temperature = (\<lambda>x y z. 1)\<rparr> 0 0 0
       = XDim3_ieee PInf (Fin 0) (Fin 0)
   \<and> is_Abort (InjectorMomentumJuttner_getMomentum (fixed_engine (1 / 2) 1)
        \<lparr>velocity = \<lparr>velocity_at = (\<lambda>x y z. - 2), direction = 2\<rparr>,
         temperature = (\<lambda>x y z. 1)\<rparr> 0 0 0 0)
   \<and> InjectorMomentumJuttner_getBulkMomentum_ieee
        \<lparr>velocity = \<lparr>velocity_at = (\<lambda>x y z. - 2), direction = 2\<rparr>,
         temperature = (\<lambda>x y z. 1)\<rparr> 0 0 0
       = XDim3_ieee (Fin 0) (Fin 0) NaN"
  using bulk_momentum_unvalidated
    [of "\<lparr>InjectorMomentumBoltzmann.velocity = \<lparr>velocity_at = (\<lambda>x y z. 1), direction = 0\<rparr>,
          InjectorMomentumBoltzmann.temperature = (\<lambda>x y z. 1)\<rparr>" 0 0 0
        "\<lparr>velocity = \<lparr>velocity_at = (\<lambda>x y z. - 2), direction = 2\<rparr>,
          temperature = (\<lambda>x y z. 1)\<rparr>" "\<lambda>x y z. 1" "\<lambda>x y z. 1" "fixed_engine (1 / 2) 1" 0]
  by (simp add: InjectorMomentumBoltzmann_getBulkMomentum_ieee_def
      InjectorMomentumJuttner_getBulkMomentum_ieee_def Let_def)

subsection \<open>The selector\<close>

text \<open>
  C9. For each of the eight kind tags, the sample and the mean operation of the selector
  are those of the corresponding sampler, on the member of the union that the tag names
  and with the same arguments. For any other tag both report the fatal error
  \<open>InjectorMomentum: unknown type\<close>, with \<open>(0, 0, 0)\<close> as the value behind the abort;
  they never return a zero vector without the abort.
\<close>

theorem selector_dispatch:
  "(type this = Type_constant \<longrightarrow>
      InjectorMomentum_getMomentum R this x y z engine
        = InjectorMomentumConstant_getMomentum (object_constant (object this)) x y z engine
      \<and> InjectorMomentum_getBulkMomentum this x y z
        = Returns (InjectorMomentumConstant_getBulkMomentum (object_constant (object this)) x y z))
   \<and> (type this = Type_gaussian \<longrightarrow>
      InjectorMomentum_getMomentum R this x y z engine
        = InjectorMomentumGaussian_getMomentum R (object_gaussian (object this)) x y z engine
      \<and> InjectorMomentum_getBulkMomentum this x y z
        = Returns (InjectorMomentumGaussian_getBulkMomentum (object_gaussian (object this)) x y z))
   \<and> (type this = Type_gaussianflux \<longrightarrow>
      InjectorMomentum_getMomentum R this x y z engine
        = InjectorMomentumGaussianFlux_getMomentum R (object_gaussianflux (object this)) x y z engine
      \<and> InjectorMomentum_getBulkMomentum this x y z
        = Returns (InjectorMomentumGaussianFlux_getBulkMomentum (object_gaussianflux (object this)) x y z))
   \<and> (type this = Type_uniform \<longrightarrow>
      InjectorMomentum_getMomentum R this x y z engine
        = InjectorMomentumUniform_getMomentum R (object_uniform (object this)) x y z engine
      \<and> InjectorMomentum_getBulkMomentum this x y z
        = Returns (InjectorMomentumUniform_getBulkMomentum (object_uniform (object this)) x y z))
   \<and> (type this = Type_boltzmann \<longrightarrow>
      InjectorMomentum_getMomentum R this x y z engine
        = InjectorMomentumBoltzmann_getMomentum R (object_boltzmann (object this)) x y z engine
      \<and> InjectorMomentum_getBulkMomentum this x y z
        = Returns (InjectorMomentumBoltzmann_getBulkMomentum (object_boltzmann (object this)) x y z))
   \<and> (type this = Type_juttner \<longrightarrow>
      InjectorMomentum_getMomentum R this x y z engine
        = InjectorMomentumJuttner_getMomentum R (object_juttner (object this)) x y z engine
      \<and> InjectorMomentum_getBulkMomentum this x y z
        = Returns (InjectorMomentumJuttner_getBulkMomentum (object_juttner (object this)) x y z))
   \<and> (type this = Type_radial_expansion \<longrightarrow>
      InjectorMomentum_getMomentum R this x y z engine
        = InjectorMomentumRadialExpansion_getMomentum (object_radial_expansion (object this)) x y z engine
      \<and> InjectorMomentum_getBulkMomentum this x y z
        = Returns (InjectorMomentumRadialExpansion_getBulkMomentum
                     (object_radial_expansion (object this)) x y z))
   \<and> (type this = Type_parser \<longrightarrow>
      InjectorMomentum_getMomentum R this x y z engine
        = InjectorMomentumParser_getMomentum (object_parser (object this)) x y z engine
      \<and> InjectorMomentum_getBulkMomentum this x y z
        = Returns (InjectorMomentumParser_getBulkMomentum (object_parser (object this)) x y z))
   \<and> (type this \<notin> {Type_constant, Type_gaussian, Type_gaussianflux, Type_uniform, Type_boltzmann,
                     Type_juttner, Type_radial_expansion, Type_parser} \<longrightarrow>
      InjectorMomentum_getMomentum R this x y z engine
        = Abort ''InjectorMomentum: unknown type'' (Returns (Some (XDim3 0 0 0, engine)))
      \<and> InjectorMomentum_getBulkMomentum this x y z
        = Abort ''InjectorMomentum: unknown type'' (Returns (XDim3 0 0 0)))"
  by (simp add: InjectorMomentum_getMomentum_def InjectorMomentum_getBulkMomentum_def
      Type_constant_def Type_gaussian_def Type_gaussianflux_def Type_uniform_def Type_boltzmann_def
      Type_juttner_def Type_radial_expansion_def Type_parser_def)

text \<open>
  A selector tagged \<open>radial_expansion\<close> with \<open>u_over_r = 2\<close> gives \<open>(6, 0, 8)\<close> at the
  position \<open>(3, 0, 4)\<close> from both operations; with the tag 42 both operations abort.
\<close>

theorem selector_dispatch_witness:
  "InjectorMomentum_getMomentum (fixed_engine (1 / 2) 1)
      \<lparr>type = Type_radial_expansion, object = Active_radial_expansion \<lparr>u_over_r = 2\<rparr>\<rparr> 3 0 4 0
     = Returns (Some (XDim3 6 0 8, 0))
   \<and> InjectorMomentum_getBulkMomentum
      \<lparr>type = Type_radial_expansion, object = Active_radial_expansion \<lparr>u_over_r = 2\<rparr>\<rparr> 3 0 4
     = Returns (XDim3 6 0 8)
   \<and> InjectorMomentum_getMomentum (fixed_engine (1 / 2) 1)
      \<lparr>type = 42, object = Active_radial_expansion \<lparr>u_over_r = 2\<rparr>\<rparr> 3 0 4 0
     = Abort ''InjectorMomentum: unknown type'' (Returns (Some (XDim3 0 0 0, 0)))
   \<and> InjectorMomentum_getBulkMomentum
      \<lparr>type = 42, object = Active_radial_expansion \<lparr>u_over_r = 2\<rparr>\<rparr> 3 0 4
     = Abort ''InjectorMomentum: unknown type'' (Returns (XDim3 0 0 0))"
  using selector_dispatch
      [of "\<lparr>type = Type_radial_expansion, object = Active_radial_expansion \<lparr>u_over_r = 2\<rparr>\<rparr>"
          "fixed_engine (1 / 2) 1" 3 0 4 0]
    selector_dispatch
      [of "\<lparr>type = 42, object = Active_radial_expansion \<lparr>u_over_r = 2\<rparr>\<rparr>"
          "fixed_engine (1 / 2) 1" 3 0 4 0]
  by (simp add: InjectorMomentumRadialExpansion_getMomentum_def
      InjectorMomentumRadialExpansion_getBulkMomentum_def
      Type_constant_def Type_gaussian_def Type_gaussianflux_def Type_uniform_def Type_boltzmann_def
      Type_juttner_def Type_radial_expansion_def Type_parser_def)

end
